theory Spec2Isabelle
  imports Main
begin

section \<open>JavaScript values used by the panels\<close>

text \<open>
  A value that may be \<^verbatim>\<open>null\<close> or \<^verbatim>\<open>undefined\<close> is an option. A string is truthy
  when it is present and not the empty string (\<^verbatim>\<open>!x\<close>, \<^verbatim>\<open>x || y\<close>, \<^verbatim>\<open>x ? a : b\<close>).
\<close>

definition truthy :: "string option \<Rightarrow> bool" where
  "truthy v = (case v of None \<Rightarrow> False | Some s \<Rightarrow> s \<noteq> [])"

text \<open>Optional chaining \<^verbatim>\<open>q?.field\<close> on a possibly-null object.\<close>

definition opt_chain :: "'a option \<Rightarrow> ('a \<Rightarrow> 'b option) \<Rightarrow> 'b option" where
  "opt_chain q field = (case q of None \<Rightarrow> None | Some x \<Rightarrow> field x)"

text \<open>\<^verbatim>\<open>String.prototype.includes\<close>: the argument occurs as a contiguous substring.\<close>

fun starts_with :: "string \<Rightarrow> string \<Rightarrow> bool" where
  "starts_with s [] = True"
| "starts_with [] (c # cs) = False"
| "starts_with (x # xs) (c # cs) = (x = c \<and> starts_with xs cs)"

fun str_includes :: "string \<Rightarrow> string \<Rightarrow> bool" where
  "str_includes [] sub = (sub = [])"
| "str_includes (x # xs) sub = (starts_with (x # xs) sub \<or> str_includes xs sub)"

section \<open>Promises and their handler chains\<close>

text \<open>
  A rejected request carries an \<^verbatim>\<open>Error\<close> object of which the panels read only
  \<^verbatim>\<open>.message\<close>. A settled promise is fulfilled with a decoded payload or rejected.
\<close>

datatype failure = Failure (message: string)

datatype 'a settled = Fulfilled 'a | Rejected failure

text \<open>
  \<^verbatim>\<open>p.then(f)\<close>, \<^verbatim>\<open>p.catch(g)\<close> and \<^verbatim>\<open>p.finally(h)\<close> for handlers that only call state
  setters: each maps the settled promise and the component to the derived promise and
  the updated component. The handlers of the panels return \<^verbatim>\<open>undefined\<close>.
\<close>

fun then_p :: "('a \<Rightarrow> 's \<Rightarrow> 's) \<Rightarrow> 'a settled \<times> 's \<Rightarrow> unit settled \<times> 's" where
  "then_p f (Fulfilled v, s) = (Fulfilled (), f v s)"
| "then_p f (Rejected e, s) = (Rejected e, s)"

fun catch_p :: "(failure \<Rightarrow> 's \<Rightarrow> 's) \<Rightarrow> unit settled \<times> 's \<Rightarrow> unit settled \<times> 's" where
  "catch_p g (Fulfilled v, s) = (Fulfilled v, s)"
| "catch_p g (Rejected e, s) = (Fulfilled (), g e s)"

fun finally_p :: "('s \<Rightarrow> 's) \<Rightarrow> unit settled \<times> 's \<Rightarrow> unit settled \<times> 's" where
  "finally_p h (r, s) = (r, h s)"

section \<open>The request client (api.js)\<close>

datatype request =
    GetHealth
  | GetMetrics
  | GetDrift "string option"
  | GetAlerts
  | PostExecute string string

definition fetchHealth :: request where
  "fetchHealth = GetHealth"

definition fetchMetrics :: request where
  "fetchMetrics = GetMetrics"

text \<open>\<^verbatim>\<open>params: agentType ? { agent_type: agentType } : {}\<close>\<close>

definition fetchDrift :: "string option \<Rightarrow> request" where
  "fetchDrift agentType = GetDrift (if truthy agentType then agentType else None)"

definition fetchAlerts :: request where
  "fetchAlerts = GetAlerts"

definition executeSql :: "string \<Rightarrow> string \<Rightarrow> request" where
  "executeSql sql agentType = PostExecute sql agentType"

section \<open>A mounted function component\<close>

text \<open>
  The \<^verbatim>\<open>useState\<close> cells of a component (\<open>hooks\<close>) together with what the runtime holds
  for it: whether it is mounted, the request its live \<^verbatim>\<open>setInterval\<close> callback issues
  at each tick (\<open>None\<close> once \<^verbatim>\<open>clearInterval\<close> ran), the requests still in flight in
  issue order, each with the number under which it was issued, and the console.
  The issue numbers belong to the runtime; no panel reads them.
\<close>

record ('h, 'r) component =
  hooks :: 'h
  mounted :: bool
  timer :: "'r option"
  inflight :: "(nat \<times> 'r) list"
  issued :: nat
  console :: "(string \<times> failure) list"

text \<open>
  A state setter returned by \<^verbatim>\<open>useState\<close>: React drops an update dispatched to a
  component that has been unmounted.
\<close>

definition set_state :: "('h \<Rightarrow> 'h) \<Rightarrow> ('h, 'r) component \<Rightarrow> ('h, 'r) component" where
  "set_state upd c = (if mounted c then c\<lparr>hooks := upd (hooks c)\<rparr> else c)"

definition console_error :: "string \<Rightarrow> failure \<Rightarrow> ('h, 'r) component \<Rightarrow> ('h, 'r) component" where
  "console_error label err c = c\<lparr>console := console c @ [(label, err)]\<rparr>"

definition issue :: "'r \<Rightarrow> ('h, 'r) component \<Rightarrow> ('h, 'r) component" where
  "issue r c = c\<lparr>inflight := inflight c @ [(issued c, r)], issued := Suc (issued c)\<rparr>"

definition pending :: "nat \<Rightarrow> ('h, 'r) component \<Rightarrow> 'r option" where
  "pending i c = map_of (inflight c) i"

definition complete :: "nat \<Rightarrow> ('h, 'r) component \<Rightarrow> ('h, 'r) component" where
  "complete i c = c\<lparr>inflight := filter (\<lambda>p. fst p \<noteq> i) (inflight c)\<rparr>"

definition setInterval :: "'r \<Rightarrow> ('h, 'r) component \<Rightarrow> ('h, 'r) component" where
  "setInterval r c = c\<lparr>timer := Some r\<rparr>"

definition clearInterval :: "('h, 'r) component \<Rightarrow> ('h, 'r) component" where
  "clearInterval c = c\<lparr>timer := None\<rparr>"

definition unmount :: "('h, 'r) component \<Rightarrow> ('h, 'r) component" where
  "unmount c = (clearInterval c)\<lparr>mounted := False\<rparr>"

text \<open>The interval fires: the callback issues its request, whatever is still in flight.\<close>

definition tick :: "('h, 'r) component \<Rightarrow> ('h, 'r) component" where
  "tick c = (case timer c of None \<Rightarrow> c | Some r \<Rightarrow> issue r c)"

datatype 'p poll_event = Tick | Settled nat "'p settled" | Unmount

section \<open>MetricsPanel\<close>

record 'd poll_state =
  data :: "'d option"
  error :: "string option"

definition setData :: "'d \<Rightarrow> (('d, 'z) poll_state_scheme, 'r) component \<Rightarrow> (('d, 'z) poll_state_scheme, 'r) component" where
  "setData d = set_state (\<lambda>h. h\<lparr>data := Some d\<rparr>)"

definition setError :: "string \<Rightarrow> (('d, 'z) poll_state_scheme, 'r) component \<Rightarrow> (('d, 'z) poll_state_scheme, 'r) component" where
  "setError m = set_state (\<lambda>h. h\<lparr>error := Some m\<rparr>)"

text \<open>\<^verbatim>\<open>.then(setData).catch(e => setError(e.message))\<close>, shared by MetricsPanel and DriftPanel.\<close>

definition load_settled :: "'d settled \<Rightarrow> (('d, 'z) poll_state_scheme, 'r) component \<Rightarrow> unit settled \<times> (('d, 'z) poll_state_scheme, 'r) component" where
  "load_settled out c = catch_p (\<lambda>e. setError (message e)) (then_p setData (out, c))"

definition MetricsPanel_init :: "('d poll_state, request) component" where
  "MetricsPanel_init = \<lparr>hooks = \<lparr>data = None, error = None\<rparr>, mounted = True, timer = None,
     inflight = [], issued = 0, console = []\<rparr>"

text \<open>The mount effect: \<^verbatim>\<open>load(); const interval = setInterval(load, 3000)\<close>.\<close>

definition MetricsPanel_effect :: "('d poll_state, request) component \<Rightarrow> ('d poll_state, request) component" where
  "MetricsPanel_effect c = setInterval fetchMetrics (issue fetchMetrics c)"

definition MetricsPanel_mount :: "('d poll_state, request) component" where
  "MetricsPanel_mount = MetricsPanel_effect MetricsPanel_init"

fun MetricsPanel_step :: "'d poll_event \<Rightarrow> ('d poll_state, request) component \<Rightarrow> ('d poll_state, request) component" where
  "MetricsPanel_step Tick c = tick c"
| "MetricsPanel_step (Settled i out) c =
     (case pending i c of None \<Rightarrow> c | Some r \<Rightarrow> snd (load_settled out (complete i c)))"
| "MetricsPanel_step Unmount c = unmount c"

text \<open>
  \<^verbatim>\<open>if (error) return <p className="error-msg">{error}</p>;
  if (!data) return <p className="loading">...</p>;\<close> and otherwise the cards and tables.
  \<^verbatim>\<open>!data\<close> holds when no payload is stored and also when the stored payload is itself
  falsy (\<^verbatim>\<open>null\<close>, \<^verbatim>\<open>0\<close>, \<^verbatim>\<open>""\<close>); \<open>falsy\<close> tells which payloads are.
\<close>

datatype 'd panel_view = ErrorMsg string | Loading | Content 'd

definition poll_render :: "('d \<Rightarrow> bool) \<Rightarrow> ('d, 'z) poll_state_scheme \<Rightarrow> 'd panel_view" where
  "poll_render falsy h =
     (if truthy (error h) then (case error h of Some m \<Rightarrow> ErrorMsg m | None \<Rightarrow> Loading)
      else (case data h of None \<Rightarrow> Loading | Some d \<Rightarrow> if falsy d then Loading else Content d))"

section \<open>AlertsPanel\<close>

record 'a AlertsPanel_state =
  alerts :: "'a list"
  loading :: bool
  tab :: string

definition setAlerts :: "'a list \<Rightarrow> ('a AlertsPanel_state, 'r) component \<Rightarrow> ('a AlertsPanel_state, 'r) component" where
  "setAlerts d = set_state (\<lambda>h. h\<lparr>alerts := d\<rparr>)"

definition setLoading :: "bool \<Rightarrow> ('a AlertsPanel_state, 'r) component \<Rightarrow> ('a AlertsPanel_state, 'r) component" where
  "setLoading b = set_state (\<lambda>h. h\<lparr>loading := b\<rparr>)"

text \<open>
  \<^verbatim>\<open>.then(data => { setAlerts(data); setLoading(false); })
  .catch(err => { console.error("Failed to load alerts", err); setLoading(false); })\<close>
\<close>

definition loadAlerts_settled :: "'a list settled \<Rightarrow> ('a AlertsPanel_state, 'r) component \<Rightarrow> unit settled \<times> ('a AlertsPanel_state, 'r) component" where
  "loadAlerts_settled out c =
     catch_p (\<lambda>err c'. setLoading False (console_error ''Failed to load alerts'' err c'))
       (then_p (\<lambda>d c'. setLoading False (setAlerts d c')) (out, c))"

definition AlertsPanel_init :: "('a AlertsPanel_state, request) component" where
  "AlertsPanel_init = \<lparr>hooks = \<lparr>alerts = [], loading = True, tab = ''Active''\<rparr>, mounted = True,
     timer = None, inflight = [], issued = 0, console = []\<rparr>"

text \<open>The mount effect: \<^verbatim>\<open>loadAlerts(); const interval = setInterval(loadAlerts, 5000)\<close>.\<close>

definition AlertsPanel_effect :: "('a AlertsPanel_state, request) component \<Rightarrow> ('a AlertsPanel_state, request) component" where
  "AlertsPanel_effect c = setInterval fetchAlerts (issue fetchAlerts c)"

definition AlertsPanel_mount :: "('a AlertsPanel_state, request) component" where
  "AlertsPanel_mount = AlertsPanel_effect AlertsPanel_init"

fun AlertsPanel_step :: "'a list poll_event \<Rightarrow> ('a AlertsPanel_state, request) component \<Rightarrow> ('a AlertsPanel_state, request) component" where
  "AlertsPanel_step Tick c = tick c"
| "AlertsPanel_step (Settled i out) c =
     (case pending i c of None \<Rightarrow> c | Some r \<Rightarrow> snd (loadAlerts_settled out (complete i c)))"
| "AlertsPanel_step Unmount c = unmount c"

text \<open>
  \<^verbatim>\<open>if (loading && alerts.length === 0) return <div>Loading alerts...</div>\<close>; otherwise the
  list, or the "No active alerts. System healthy." box when it is empty. The panel has
  no error cell and renders no error element.
\<close>

datatype 'a alerts_view = LoadingAlerts | NoActiveAlerts | AlertCards "'a list"

definition AlertsPanel_render :: "'a AlertsPanel_state \<Rightarrow> 'a alerts_view" where
  "AlertsPanel_render h =
     (if loading h \<and> length (alerts h) = 0 then LoadingAlerts
      else if length (alerts h) = 0 then NoActiveAlerts
      else AlertCards (alerts h))"

section \<open>DriftPanel\<close>

text \<open>
  A row of \<^verbatim>\<open>high_drift_samples\<close>. \<open>ident\<close> stands for the identity of the JavaScript
  object: React compares an effect's dependencies with \<^verbatim>\<open>Object.is\<close>, so selecting the
  very same object again does not run the effect, and selecting an equal row of a newer
  payload does. The drift score and the classification are only displayed.
\<close>

record sample =
  ident :: nat
  query_id :: string
  query_text :: string
  sql :: "string option"
  agent_type :: "string option"

text \<open>The decoded body of \<^verbatim>\<open>POST /debug/execute\<close>: \<^verbatim>\<open>{ status, results?, error? }\<close>.\<close>

record exec_result =
  status :: string
  results :: "(string \<times> string) list list option"
  error' :: "string option"

record 'd DriftPanel_state = "'d poll_state" +
  filter' :: string
  selectedQuery :: "sample option"
  execResult :: "exec_result option"
  execLoading :: bool

type_synonym 'd DriftPanel = "('d DriftPanel_state, request) component"

definition setFilter :: "string \<Rightarrow> 'd DriftPanel \<Rightarrow> 'd DriftPanel" where
  "setFilter v = set_state (\<lambda>h. h\<lparr>filter' := v\<rparr>)"

definition setSelectedQuery :: "sample option \<Rightarrow> 'd DriftPanel \<Rightarrow> 'd DriftPanel" where
  "setSelectedQuery q = set_state (\<lambda>h. h\<lparr>selectedQuery := q\<rparr>)"

definition setExecResult :: "exec_result option \<Rightarrow> 'd DriftPanel \<Rightarrow> 'd DriftPanel" where
  "setExecResult r = set_state (\<lambda>h. h\<lparr>execResult := r\<rparr>)"

definition setExecLoading :: "bool \<Rightarrow> 'd DriftPanel \<Rightarrow> 'd DriftPanel" where
  "setExecLoading b = set_state (\<lambda>h. h\<lparr>execLoading := b\<rparr>)"

text \<open>The request of \<^verbatim>\<open>load(agentType)\<close>: \<^verbatim>\<open>fetchDrift(agentType || undefined)\<close>.\<close>

definition load_request :: "string \<Rightarrow> request" where
  "load_request agentType = fetchDrift (if truthy (Some agentType) then Some agentType else None)"

definition load :: "string \<Rightarrow> 'd DriftPanel \<Rightarrow> 'd DriftPanel" where
  "load agentType c = issue (load_request agentType) c"

text \<open>
  The effect on \<^verbatim>\<open>[filter]\<close>:
  \<^verbatim>\<open>load(filter); const interval = setInterval(() => load(filter), 3000);
  return () => clearInterval(interval);\<close>
\<close>

definition filter_effect :: "'d DriftPanel \<Rightarrow> 'd DriftPanel" where
  "filter_effect c = setInterval (load_request (filter' (hooks c))) (load (filter' (hooks c)) c)"

definition no_sql_recorded :: exec_result where
  "no_sql_recorded = \<lparr>status = ''error'', results = None, error' = Some ''No SQL recorded.''\<rparr>"

definition error_result :: "failure \<Rightarrow> exec_result" where
  "error_result err = \<lparr>status = ''error'', results = None, error' = Some (message err)\<rparr>"

text \<open>The effect on \<^verbatim>\<open>[selectedQuery]\<close>, up to the call of \<^verbatim>\<open>executeSql\<close>.\<close>

definition selectedQuery_effect :: "'d DriftPanel \<Rightarrow> 'd DriftPanel" where
  "selectedQuery_effect c =
     (let q = selectedQuery (hooks c) in
      if \<not> truthy (opt_chain q sql) \<or> \<not> truthy (opt_chain q agent_type) then setExecResult None c
      else (case (opt_chain q sql, opt_chain q agent_type) of
              (Some s, Some a) \<Rightarrow>
                if str_includes s ''Not Available'' then setExecResult (Some no_sql_recorded) c
                else issue (executeSql s a) (setExecLoading True c)
            | _ \<Rightarrow> setExecResult None c))"

text \<open>
  \<^verbatim>\<open>.then(res => setExecResult(res))
  .catch(err => setExecResult({ status: 'error', error: err.message }))
  .finally(() => setExecLoading(false))\<close>
\<close>

definition exec_settled :: "exec_result settled \<Rightarrow> 'd DriftPanel \<Rightarrow> unit settled \<times> 'd DriftPanel" where
  "exec_settled out c =
     finally_p (setExecLoading False)
       (catch_p (\<lambda>err. setExecResult (Some (error_result err)))
         (then_p (\<lambda>res. setExecResult (Some res)) (out, c)))"

definition DriftPanel_init :: "'d DriftPanel" where
  "DriftPanel_init = \<lparr>hooks = \<lparr>data = None, error = None, filter' = [], selectedQuery = None,
       execResult = None, execLoading = False\<rparr>,
     mounted = True, timer = None, inflight = [], issued = 0, console = []\<rparr>"

definition DriftPanel_mount :: "'d DriftPanel" where
  "DriftPanel_mount = selectedQuery_effect (filter_effect DriftPanel_init)"

datatype 'd drift_event =
    Poll "'d poll_event"
  | SetFilter string
  | SetSelectedQuery "sample option"
  | ExecSettled nat "exec_result settled"

text \<open>
  One event of the panel. A setter called with the value the cell already holds causes
  no render, and an effect runs only when its dependency changed: the \<^verbatim>\<open>[filter]\<close>
  effect first runs its cleanup. A response is handed to the handlers of the request it
  answers.
\<close>

fun DriftPanel_step :: "'d drift_event \<Rightarrow> 'd DriftPanel \<Rightarrow> 'd DriftPanel" where
  "DriftPanel_step (Poll Tick) c = tick c"
| "DriftPanel_step (Poll (Settled i out)) c =
     (case pending i c of
        Some (GetDrift a) \<Rightarrow> snd (load_settled out (complete i c))
      | _ \<Rightarrow> c)"
| "DriftPanel_step (Poll Unmount) c = unmount c"
| "DriftPanel_step (SetFilter v) c =
     (if \<not> mounted c \<or> filter' (hooks c) = v then c
      else filter_effect (clearInterval (setFilter v c)))"
| "DriftPanel_step (SetSelectedQuery q) c =
     (if \<not> mounted c \<or> selectedQuery (hooks c) = q then c
      else selectedQuery_effect (setSelectedQuery q c))"
| "DriftPanel_step (ExecSettled i out) c =
     (case pending i c of
        Some (PostExecute s a) \<Rightarrow> snd (exec_settled out (complete i c))
      | _ \<Rightarrow> c)"

text \<open>The "Query Output" box of the details pane (rendered while a query is selected).\<close>

datatype output_view =
    LoadingOutput
  | NoOutputData
  | ErrorText "string option"
  | ZeroRows
  | ResultTable "(string \<times> string) list list"
  | RenderTypeError

definition render_output :: "('d, 'z) DriftPanel_state_scheme \<Rightarrow> output_view" where
  "render_output h =
     (if execLoading h then LoadingOutput
      else (case execResult h of
              None \<Rightarrow> NoOutputData
            | Some r \<Rightarrow>
                if status r = ''error'' then ErrorText (error' r)
                else (case results r of
                        None \<Rightarrow> RenderTypeError
                      | Some rows \<Rightarrow> if length rows = 0 then ZeroRows else ResultTable rows)))"

section \<open>Dashboard\<close>

record agent =
  agent_status :: string

record health_snapshot =
  agents :: "(string \<times> agent) list option"

definition Object_values :: "(string \<times> 'v) list \<Rightarrow> 'v list" where
  "Object_values obj = map snd obj"

text \<open>
  \<^verbatim>\<open>health ? Object.values(health.agents || {}).every(a => a.status === 'ok') : false\<close>
\<close>

definition agentsUp :: "health_snapshot option \<Rightarrow> bool" where
  "agentsUp health =
     (case health of
        None \<Rightarrow> False
      | Some h \<Rightarrow>
          list_all (\<lambda>a. agent_status a = ''ok'')
            (Object_values (case agents h of None \<Rightarrow> [] | Some m \<Rightarrow> m)))"

text \<open>
  The state cells of \<^verbatim>\<open>Dashboard\<close> and its health poll:
  \<^verbatim>\<open>const poll = () => fetchHealth().then(setHealth).catch(() => { });
  poll(); const id = setInterval(poll, 3000); return () => clearInterval(id);\<close>
\<close>

record Dashboard_state =
  tab' :: string
  health :: "health_snapshot option"

definition setHealth :: "health_snapshot \<Rightarrow> (Dashboard_state, 'r) component \<Rightarrow> (Dashboard_state, 'r) component" where
  "setHealth h = set_state (\<lambda>s. s\<lparr>health := Some h\<rparr>)"

definition poll_settled :: "health_snapshot settled \<Rightarrow> (Dashboard_state, 'r) component \<Rightarrow> unit settled \<times> (Dashboard_state, 'r) component" where
  "poll_settled out c = catch_p (\<lambda>e c'. c') (then_p setHealth (out, c))"

definition Dashboard_init :: "(Dashboard_state, request) component" where
  "Dashboard_init = \<lparr>hooks = \<lparr>tab' = ''Metrics'', health = None\<rparr>, mounted = True, timer = None,
     inflight = [], issued = 0, console = []\<rparr>"

definition Dashboard_effect :: "(Dashboard_state, request) component \<Rightarrow> (Dashboard_state, request) component" where
  "Dashboard_effect c = setInterval fetchHealth (issue fetchHealth c)"

definition Dashboard_mount :: "(Dashboard_state, request) component" where
  "Dashboard_mount = Dashboard_effect Dashboard_init"

fun Dashboard_step :: "health_snapshot poll_event \<Rightarrow> (Dashboard_state, request) component \<Rightarrow> (Dashboard_state, request) component" where
  "Dashboard_step Tick c = tick c"
| "Dashboard_step (Settled i out) c =
     (case pending i c of None \<Rightarrow> c | Some r \<Rightarrow> snd (poll_settled out (complete i c)))"
| "Dashboard_step Unmount c = unmount c"

section \<open>Runs\<close>

fun run :: "('e \<Rightarrow> 's \<Rightarrow> 's) \<Rightarrow> 'e list \<Rightarrow> 's \<Rightarrow> 's" where
  "run step [] c = c"
| "run step (e # es) c = run step es (step e c)"

section \<open>Example states and inputs\<close>

text \<open>A panel with its mount fetch and the fetches of two ticks still in flight.\<close>

definition MetricsPanel_three_inflight :: "(nat poll_state, request) component" where
  "MetricsPanel_three_inflight = run MetricsPanel_step [Tick, Tick] MetricsPanel_mount"

definition DriftPanel_three_inflight :: "nat DriftPanel" where
  "DriftPanel_three_inflight = run DriftPanel_step [Poll Tick, Poll Tick] DriftPanel_mount"

text \<open>Rows of a drift payload and the bodies the execute endpoint returns for them.\<close>

definition sample_X :: sample where
  "sample_X = \<lparr>ident = 1, query_id = ''q1'', query_text = ''spend by region'',
     sql = Some ''SELECT 1'', agent_type = Some ''spend''\<rparr>"

definition sample_Y :: sample where
  "sample_Y = \<lparr>ident = 2, query_id = ''q2'', query_text = ''demand by month'',
     sql = Some ''SELECT 2'', agent_type = Some ''demand''\<rparr>"

definition sample_not_available :: sample where
  "sample_not_available = \<lparr>ident = 3, query_id = ''q3'', query_text = ''top suppliers'',
     sql = Some ''Not Available'', agent_type = Some ''spend''\<rparr>"

definition sample_not_available_no_agent :: sample where
  "sample_not_available_no_agent = \<lparr>ident = 4, query_id = ''q4'', query_text = ''open orders'',
     sql = Some ''Not Available'', agent_type = None\<rparr>"

definition sample_no_sql :: sample where
  "sample_no_sql = \<lparr>ident = 5, query_id = ''q5'', query_text = ''late deliveries'',
     sql = None, agent_type = Some ''demand''\<rparr>"

definition result_X :: exec_result where
  "result_X = \<lparr>status = ''ok'', results = Some [[(''n'', ''1'')]], error' = None\<rparr>"

definition result_Y :: exec_result where
  "result_Y = \<lparr>status = ''ok'', results = Some [[(''n'', ''2'')]], error' = None\<rparr>"

definition drift_rows :: "sample list" where
  "drift_rows = [sample_X, sample_Y, sample_not_available, sample_not_available_no_agent, sample_no_sql]"

text \<open>The panel after its first drift payload arrived, and after X was selected and shown.\<close>

definition DriftPanel_loaded :: "sample list DriftPanel" where
  "DriftPanel_loaded = run DriftPanel_step [Poll (Settled 0 (Fulfilled drift_rows))] DriftPanel_mount"

definition DriftPanel_X_shown :: "sample list DriftPanel" where
  "DriftPanel_X_shown =
     run DriftPanel_step [SetSelectedQuery (Some sample_X), ExecSettled 1 (Fulfilled result_X)]
       DriftPanel_loaded"

definition DriftPanel_X_pending :: "sample list DriftPanel" where
  "DriftPanel_X_pending = run DriftPanel_step [SetSelectedQuery (Some sample_X)] DriftPanel_loaded"

text \<open>The loaded panel after one more tick: a poll under the filter \<open>''''\<close> is in flight.\<close>

definition DriftPanel_loaded_ticked :: "sample list DriftPanel" where
  "DriftPanel_loaded_ticked = run DriftPanel_step [Poll Tick] DriftPanel_loaded"

text \<open>MetricsPanel and AlertsPanel after a first success and one more tick.\<close>

definition MetricsPanel_loaded_ticked :: "(nat poll_state, request) component" where
  "MetricsPanel_loaded_ticked = run MetricsPanel_step [Settled 0 (Fulfilled 7), Tick] MetricsPanel_mount"

definition AlertsPanel_loaded_ticked :: "(string AlertsPanel_state, request) component" where
  "AlertsPanel_loaded_ticked =
     run AlertsPanel_step [Settled 0 (Fulfilled [''disk full'']), Tick] AlertsPanel_mount"

text \<open>The dashboard after a first health snapshot and one more tick.\<close>

definition Dashboard_loaded_ticked :: "(Dashboard_state, request) component" where
  "Dashboard_loaded_ticked =
     run Dashboard_step
       [Settled 0 (Fulfilled \<lparr>agents = Some [(''spend'', \<lparr>agent_status = ''ok''\<rparr>)]\<rparr>), Tick]
       Dashboard_mount"

text \<open>The example payloads of MetricsPanel are numbers, of which \<^verbatim>\<open>0\<close> is the falsy one.\<close>

definition number_falsy :: "nat \<Rightarrow> bool" where
  "number_falsy n = (n = 0)"

section \<open>Facts about the runtime operations\<close>

lemma set_state_hooks:
  "hooks (set_state upd c) = (if mounted c then upd (hooks c) else hooks c)"
  by (simp add: set_state_def)

lemma set_state_runtime:
  "mounted (set_state upd c) = mounted c"
  "timer (set_state upd c) = timer c"
  "inflight (set_state upd c) = inflight c"
  "issued (set_state upd c) = issued c"
  "console (set_state upd c) = console c"
  by (simp_all add: set_state_def)

lemma set_state_pending: "pending i (set_state upd c) = pending i c"
  by (simp add: pending_def set_state_runtime)

lemma issue_fields:
  "hooks (issue r c) = hooks c"
  "mounted (issue r c) = mounted c"
  "timer (issue r c) = timer c"
  "inflight (issue r c) = inflight c @ [(issued c, r)]"
  "issued (issue r c) = Suc (issued c)"
  "console (issue r c) = console c"
  by (simp_all add: issue_def)

lemma complete_fields:
  "hooks (complete i c) = hooks c"
  "mounted (complete i c) = mounted c"
  "timer (complete i c) = timer c"
  "issued (complete i c) = issued c"
  "console (complete i c) = console c"
  by (simp_all add: complete_def)

lemma map_of_filter_fst:
  "map_of (filter (\<lambda>p. fst p \<noteq> i) xs) j = (if j = i then None else map_of xs j)"
  by (induction xs) auto

lemma pending_complete: "pending j (complete i c) = (if j = i then None else pending j c)"
  by (simp add: pending_def complete_def map_of_filter_fst)

lemma setInterval_fields:
  "hooks (setInterval r c) = hooks c"
  "mounted (setInterval r c) = mounted c"
  "timer (setInterval r c) = Some r"
  "inflight (setInterval r c) = inflight c"
  "issued (setInterval r c) = issued c"
  "console (setInterval r c) = console c"
  by (simp_all add: setInterval_def)

lemma clearInterval_fields:
  "hooks (clearInterval c) = hooks c"
  "mounted (clearInterval c) = mounted c"
  "timer (clearInterval c) = None"
  "inflight (clearInterval c) = inflight c"
  "issued (clearInterval c) = issued c"
  "console (clearInterval c) = console c"
  by (simp_all add: clearInterval_def)

lemma unmount_fields:
  "hooks (unmount c) = hooks c"
  "mounted (unmount c) = False"
  "timer (unmount c) = None"
  "inflight (unmount c) = inflight c"
  "issued (unmount c) = issued c"
  "console (unmount c) = console c"
  by (simp_all add: unmount_def clearInterval_def)

lemma tick_stopped: "timer c = None \<Longrightarrow> tick c = c"
  by (simp add: tick_def)

lemma tick_live: "timer c = Some r \<Longrightarrow> tick c = issue r c"
  by (simp add: tick_def)

section \<open>Facts about the handler chains\<close>

lemma load_settled_fulfilled: "fst (load_settled out c) = Fulfilled ()"
  by (cases out) (simp_all add: load_settled_def)

lemma load_settled_hooks:
  "hooks (snd (load_settled out c)) =
     (if mounted c
      then (case out of Fulfilled d \<Rightarrow> (hooks c)\<lparr>data := Some d\<rparr>
                      | Rejected e \<Rightarrow> (hooks c)\<lparr>error := Some (message e)\<rparr>)
      else hooks c)"
  by (cases out) (simp_all add: load_settled_def setData_def setError_def set_state_hooks)

lemma load_settled_runtime:
  "mounted (snd (load_settled out c)) = mounted c"
  "timer (snd (load_settled out c)) = timer c"
  "inflight (snd (load_settled out c)) = inflight c"
  "issued (snd (load_settled out c)) = issued c"
  "console (snd (load_settled out c)) = console c"
  by (cases out; simp add: load_settled_def setData_def setError_def set_state_runtime)+

lemma load_settled_pending: "pending i (snd (load_settled out c)) = pending i c"
  by (simp add: pending_def load_settled_runtime)

lemma loadAlerts_settled_fulfilled: "fst (loadAlerts_settled out c) = Fulfilled ()"
  by (cases out) (simp_all add: loadAlerts_settled_def)

lemma loadAlerts_settled_hooks:
  "hooks (snd (loadAlerts_settled out c)) =
     (if mounted c
      then (case out of Fulfilled d \<Rightarrow> (hooks c)\<lparr>alerts := d, loading := False\<rparr>
                      | Rejected e \<Rightarrow> (hooks c)\<lparr>loading := False\<rparr>)
      else hooks c)"
  by (cases out)
    (simp_all add: loadAlerts_settled_def setAlerts_def setLoading_def console_error_def
      set_state_def)

lemma loadAlerts_settled_runtime:
  "mounted (snd (loadAlerts_settled out c)) = mounted c"
  "timer (snd (loadAlerts_settled out c)) = timer c"
  "inflight (snd (loadAlerts_settled out c)) = inflight c"
  "issued (snd (loadAlerts_settled out c)) = issued c"
  by (cases out; simp add: loadAlerts_settled_def setAlerts_def setLoading_def
      console_error_def set_state_def)+

lemma loadAlerts_settled_console:
  "console (snd (loadAlerts_settled out c)) =
     (case out of Fulfilled d \<Rightarrow> console c
                | Rejected e \<Rightarrow> console c @ [(''Failed to load alerts'', e)])"
  by (cases out)
    (simp_all add: loadAlerts_settled_def setAlerts_def setLoading_def console_error_def
      set_state_def)

lemma exec_settled_fulfilled: "fst (exec_settled out c) = Fulfilled ()"
  by (cases out) (simp_all add: exec_settled_def)

lemma exec_settled_hooks:
  "hooks (snd (exec_settled out c)) =
     (if mounted c
      then (hooks c)\<lparr>execResult := Some (case out of Fulfilled r \<Rightarrow> r | Rejected e \<Rightarrow> error_result e),
                     execLoading := False\<rparr>
      else hooks c)"
  by (cases out)
    (simp_all add: exec_settled_def setExecResult_def setExecLoading_def set_state_def)

lemma exec_settled_runtime:
  "mounted (snd (exec_settled out c)) = mounted c"
  "timer (snd (exec_settled out c)) = timer c"
  "inflight (snd (exec_settled out c)) = inflight c"
  "issued (snd (exec_settled out c)) = issued c"
  "console (snd (exec_settled out c)) = console c"
  by (cases out; simp add: exec_settled_def setExecResult_def setExecLoading_def set_state_def)+

lemma exec_settled_pending: "pending i (snd (exec_settled out c)) = pending i c"
  by (simp add: pending_def exec_settled_runtime)

section \<open>Facts about the steps of the panels\<close>

lemma MetricsPanel_settled_hooks:
  "mounted c \<Longrightarrow> pending i c = Some r \<Longrightarrow>
   hooks (MetricsPanel_step (Settled i out) c) =
     (case out of Fulfilled d \<Rightarrow> (hooks c)\<lparr>data := Some d\<rparr>
                | Rejected e \<Rightarrow> (hooks c)\<lparr>error := Some (message e)\<rparr>)"
  by (cases out) (simp_all add: load_settled_hooks complete_fields)

lemma MetricsPanel_settled_mounted:
  "mounted (MetricsPanel_step (Settled i out) c) = mounted c"
  by (simp add: load_settled_runtime complete_fields split: option.splits)

lemma MetricsPanel_settled_pending:
  "j \<noteq> i \<Longrightarrow> pending j (MetricsPanel_step (Settled i out) c) = pending j c"
  by (simp add: load_settled_pending pending_complete split: option.splits)

lemma DriftPanel_settled_hooks:
  "mounted c \<Longrightarrow> pending i c = Some (GetDrift a) \<Longrightarrow>
   hooks (DriftPanel_step (Poll (Settled i out)) c) =
     (case out of Fulfilled d \<Rightarrow> (hooks c)\<lparr>data := Some d\<rparr>
                | Rejected e \<Rightarrow> (hooks c)\<lparr>error := Some (message e)\<rparr>)"
  by (cases out) (simp_all add: load_settled_hooks complete_fields)

lemma DriftPanel_settled_mounted:
  "mounted (DriftPanel_step (Poll (Settled i out)) c) = mounted c"
  by (simp add: load_settled_runtime complete_fields split: option.splits request.splits)

lemma DriftPanel_settled_pending:
  "j \<noteq> i \<Longrightarrow> pending j (DriftPanel_step (Poll (Settled i out)) c) = pending j c"
  by (simp add: load_settled_pending pending_complete split: option.splits request.splits)

lemma DriftPanel_exec_hooks:
  "mounted c \<Longrightarrow> pending i c = Some (PostExecute s a) \<Longrightarrow>
   hooks (DriftPanel_step (ExecSettled i out) c) =
     (hooks c)\<lparr>execResult := Some (case out of Fulfilled r \<Rightarrow> r | Rejected e \<Rightarrow> error_result e),
               execLoading := False\<rparr>"
  by (simp add: exec_settled_hooks complete_fields)

lemma DriftPanel_exec_mounted:
  "mounted (DriftPanel_step (ExecSettled i out) c) = mounted c"
  by (simp add: exec_settled_runtime complete_fields split: option.splits request.splits)

lemma DriftPanel_exec_pending:
  "j \<noteq> i \<Longrightarrow> pending j (DriftPanel_step (ExecSettled i out) c) = pending j c"
  by (simp add: exec_settled_pending pending_complete split: option.splits request.splits)

text \<open>Once a panel is unmounted and its interval cleared, every event leaves it so.\<close>

lemma MetricsPanel_step_stopped:
  "\<not> mounted c \<Longrightarrow> timer c = None \<Longrightarrow>
   hooks (MetricsPanel_step e c) = hooks c \<and> \<not> mounted (MetricsPanel_step e c) \<and>
   timer (MetricsPanel_step e c) = None \<and> issued (MetricsPanel_step e c) = issued c \<and>
   console (MetricsPanel_step e c) = console c"
  by (cases e)
    (simp_all add: tick_stopped unmount_fields load_settled_hooks load_settled_runtime
      complete_fields split: option.splits)

lemma MetricsPanel_run_stopped:
  "\<not> mounted c \<Longrightarrow> timer c = None \<Longrightarrow>
   hooks (run MetricsPanel_step es c) = hooks c \<and> issued (run MetricsPanel_step es c) = issued c \<and>
   console (run MetricsPanel_step es c) = console c"
proof (induction es arbitrary: c)
  case Nil
  show ?case by simp
next
  case (Cons e es)
  from MetricsPanel_step_stopped [OF Cons.prems, of e] Cons.IH [of "MetricsPanel_step e c"]
  show ?case by simp
qed

lemma AlertsPanel_step_stopped:
  "\<not> mounted c \<Longrightarrow> timer c = None \<Longrightarrow>
   hooks (AlertsPanel_step e c) = hooks c \<and> \<not> mounted (AlertsPanel_step e c) \<and>
   timer (AlertsPanel_step e c) = None \<and> issued (AlertsPanel_step e c) = issued c"
  by (cases e)
    (simp_all add: tick_stopped unmount_fields loadAlerts_settled_hooks loadAlerts_settled_runtime
      complete_fields split: option.splits)

lemma AlertsPanel_run_stopped:
  "\<not> mounted c \<Longrightarrow> timer c = None \<Longrightarrow>
   hooks (run AlertsPanel_step es c) = hooks c \<and> issued (run AlertsPanel_step es c) = issued c"
proof (induction es arbitrary: c)
  case Nil
  show ?case by simp
next
  case (Cons e es)
  from AlertsPanel_step_stopped [OF Cons.prems, of e] Cons.IH [of "AlertsPanel_step e c"]
  show ?case by simp
qed

lemma DriftPanel_step_stopped:
  "\<not> mounted c \<Longrightarrow> timer c = None \<Longrightarrow>
   hooks (DriftPanel_step e c) = hooks c \<and> \<not> mounted (DriftPanel_step e c) \<and>
   timer (DriftPanel_step e c) = None \<and> issued (DriftPanel_step e c) = issued c \<and>
   console (DriftPanel_step e c) = console c"
proof (cases e)
  case (Poll p)
  assume "\<not> mounted c" "timer c = None"
  with Poll show ?thesis
    by (cases p)
      (simp_all add: tick_stopped unmount_fields load_settled_hooks load_settled_runtime
        complete_fields split: option.splits request.splits)
next
  case (SetFilter v)
  assume "\<not> mounted c" "timer c = None"
  with SetFilter show ?thesis by simp
next
  case (SetSelectedQuery q)
  assume "\<not> mounted c" "timer c = None"
  with SetSelectedQuery show ?thesis by simp
next
  case (ExecSettled i out)
  assume "\<not> mounted c" "timer c = None"
  with ExecSettled show ?thesis
    by (simp add: exec_settled_hooks exec_settled_runtime complete_fields
        split: option.splits request.splits)
qed

lemma DriftPanel_run_stopped:
  "\<not> mounted c \<Longrightarrow> timer c = None \<Longrightarrow>
   hooks (run DriftPanel_step es c) = hooks c \<and> issued (run DriftPanel_step es c) = issued c \<and>
   console (run DriftPanel_step es c) = console c"
proof (induction es arbitrary: c)
  case Nil
  show ?case by simp
next
  case (Cons e es)
  from DriftPanel_step_stopped [OF Cons.prems, of e] Cons.IH [of "DriftPanel_step e c"]
  show ?case by simp
qed

section \<open>Unfolding the definitions on concrete runs\<close>

lemmas runtime_defs =
  set_state_def console_error_def issue_def pending_def complete_def setInterval_def
  clearInterval_def unmount_def tick_def

lemmas MetricsPanel_defs =
  MetricsPanel_mount_def MetricsPanel_effect_def MetricsPanel_init_def fetchMetrics_def
  load_settled_def setData_def setError_def

lemmas AlertsPanel_defs =
  AlertsPanel_mount_def AlertsPanel_effect_def AlertsPanel_init_def fetchAlerts_def
  loadAlerts_settled_def setAlerts_def setLoading_def

lemmas Dashboard_defs =
  Dashboard_mount_def Dashboard_effect_def Dashboard_init_def fetchHealth_def
  poll_settled_def setHealth_def

lemmas DriftPanel_defs =
  DriftPanel_mount_def DriftPanel_init_def filter_effect_def selectedQuery_effect_def
  load_def load_request_def fetchDrift_def executeSql_def truthy_def opt_chain_def
  load_settled_def setData_def setError_def exec_settled_def error_result_def
  setFilter_def setSelectedQuery_def setExecResult_def setExecLoading_def

section \<open>The liveness signal of the dashboard\<close>

text \<open>
  C4, as the code has it. \<open>agentsUp\<close> is true exactly when the snapshot is not null and
  every entry of its agent mapping has status \<open>ok\<close>, a missing mapping counting as the
  empty one. A null snapshot gives false; \<open>{a: ok, b: ok}\<close> gives true; \<open>{a: ok, b:
  degraded}\<close> gives false; an empty mapping gives true, since \<^verbatim>\<open>every\<close> holds of the empty
  array.
\<close>

theorem agentsUp_iff_snapshot_and_every_ok:
  "agentsUp snapshot \<longleftrightarrow>
     (\<exists>h. snapshot = Some h \<and>
        (\<forall>a \<in> set (Object_values (case agents h of None \<Rightarrow> [] | Some m \<Rightarrow> m)).
           agent_status a = ''ok''))"
  by (cases snapshot) (simp_all add: agentsUp_def list_all_iff)

theorem agentsUp_iff_snapshot_and_every_ok_witness:
  "agentsUp (Some \<lparr>agents = Some [(''a'', \<lparr>agent_status = ''ok''\<rparr>), (''b'', \<lparr>agent_status = ''ok''\<rparr>)]\<rparr>)
   \<and> \<not> agentsUp (Some \<lparr>agents = Some [(''a'', \<lparr>agent_status = ''ok''\<rparr>), (''b'', \<lparr>agent_status = ''degraded''\<rparr>)]\<rparr>)
   \<and> \<not> agentsUp None
   \<and> agentsUp (Some \<lparr>agents = Some []\<rparr>)
   \<and> \<not> agentsUp (health (hooks Dashboard_mount))
   \<and> agentsUp (health (hooks Dashboard_loaded_ticked))"
  using agentsUp_iff_snapshot_and_every_ok
    [of "Some \<lparr>agents = Some [(''a'', \<lparr>agent_status = ''ok''\<rparr>), (''b'', \<lparr>agent_status = ''ok''\<rparr>)]\<rparr>"]
    agentsUp_iff_snapshot_and_every_ok
    [of "Some \<lparr>agents = Some [(''a'', \<lparr>agent_status = ''ok''\<rparr>), (''b'', \<lparr>agent_status = ''degraded''\<rparr>)]\<rparr>"]
    agentsUp_iff_snapshot_and_every_ok [of None]
    agentsUp_iff_snapshot_and_every_ok [of "Some \<lparr>agents = Some []\<rparr>"]
  by (simp add: Object_values_def agentsUp_def Dashboard_loaded_ticked_def Dashboard_defs runtime_defs)

text \<open>
  C4 as stated fails at the empty mapping: the signal is true although the mapping is
  empty, for a snapshot \<open>{agents: {}}\<close> and for a snapshot \<open>{}\<close> without the field, also
  when the snapshot is the first response of the dashboard's health poll.
\<close>

theorem agentsUp_empty_mapping_counterexample:
  "\<not> (agentsUp (Some \<lparr>agents = Some []\<rparr>) \<longleftrightarrow>
        (([] :: (string \<times> agent) list) \<noteq> [] \<and> list_all (\<lambda>a. agent_status a = ''ok'') (Object_values [])))
   \<and> agentsUp (Some \<lparr>agents = None\<rparr>)
   \<and> agentsUp (health (hooks (run Dashboard_step [Settled 0 (Fulfilled \<lparr>agents = Some []\<rparr>)]
         Dashboard_mount)))"
  by (simp add: agentsUp_def Object_values_def Dashboard_defs runtime_defs)

section \<open>Teardown\<close>

text \<open>
  C5. After a panel is unmounted (its interval cleared by the effect's cleanup), no event
  changes its state cells and no further request is issued, whatever arrives afterwards:
  a response of a request that was in flight, a late tick, a click. The handlers of a
  late response still run, but React drops their updates, and their promise chain ends
  fulfilled, so nothing is raised. Stated for MetricsPanel, AlertsPanel and DriftPanel.
\<close>

theorem no_state_change_after_unmount:
  "hooks (run MetricsPanel_step es (MetricsPanel_step Unmount c)) = hooks c
   \<and> issued (run MetricsPanel_step es (MetricsPanel_step Unmount c)) = issued c
   \<and> fst (load_settled out (run MetricsPanel_step es (MetricsPanel_step Unmount c))) = Fulfilled ()
   \<and> hooks (run AlertsPanel_step es' (AlertsPanel_step Unmount a)) = hooks a
   \<and> issued (run AlertsPanel_step es' (AlertsPanel_step Unmount a)) = issued a
   \<and> fst (loadAlerts_settled out' (run AlertsPanel_step es' (AlertsPanel_step Unmount a))) = Fulfilled ()
   \<and> hooks (run DriftPanel_step es'' (DriftPanel_step (Poll Unmount) p)) = hooks p
   \<and> issued (run DriftPanel_step es'' (DriftPanel_step (Poll Unmount) p)) = issued p
   \<and> fst (exec_settled out'' (run DriftPanel_step es'' (DriftPanel_step (Poll Unmount) p))) = Fulfilled ()"
proof -
  have m: "\<not> mounted (unmount c)" "timer (unmount c) = None"
    by (simp_all add: unmount_fields)
  have a: "\<not> mounted (unmount a)" "timer (unmount a) = None"
    by (simp_all add: unmount_fields)
  have p: "\<not> mounted (unmount p)" "timer (unmount p) = None"
    by (simp_all add: unmount_fields)
  from MetricsPanel_run_stopped [OF m, of es] AlertsPanel_run_stopped [OF a, of es']
    DriftPanel_run_stopped [OF p, of es'']
  show ?thesis
    by (simp add: unmount_fields load_settled_fulfilled loadAlerts_settled_fulfilled
        exec_settled_fulfilled)
qed

theorem no_state_change_after_unmount_witness:
  "hooks (run MetricsPanel_step [Settled 0 (Fulfilled (5::nat)), Tick] (MetricsPanel_step Unmount MetricsPanel_mount))
     = \<lparr>data = None, error = None\<rparr>
   \<and> issued (run MetricsPanel_step [Settled 0 (Fulfilled (5::nat)), Tick] (MetricsPanel_step Unmount MetricsPanel_mount)) = 1
   \<and> hooks (run AlertsPanel_step [Settled 0 (Rejected (Failure ''Network Error''))] (AlertsPanel_step Unmount (AlertsPanel_mount :: (nat AlertsPanel_state, request) component)))
     = \<lparr>alerts = [], loading = True, tab = ''Active''\<rparr>"
  using no_state_change_after_unmount
    [of "[Settled 0 (Fulfilled (5::nat)), Tick]" MetricsPanel_mount "Fulfilled 5"
      "[Settled 0 (Rejected (Failure ''Network Error''))]"
      "AlertsPanel_mount :: (nat AlertsPanel_state, request) component" "Fulfilled []"
      "[]" "DriftPanel_mount :: nat DriftPanel" "Fulfilled no_sql_recorded"]
  by (simp add: MetricsPanel_defs AlertsPanel_defs runtime_defs)

section \<open>Polling: what a settled poll does to data and error\<close>

lemma run_append: "run step (xs @ ys) c = run step ys (run step xs c)"
  by (induction xs arbitrary: c) simp_all

lemma tick_fields:
  "hooks (tick c) = hooks c"
  "mounted (tick c) = mounted c"
  by (simp_all add: tick_def issue_fields split: option.splits)

lemma MetricsPanel_ticks:
  "hooks (run MetricsPanel_step (replicate n Tick) c) = hooks c \<and>
   mounted (run MetricsPanel_step (replicate n Tick) c) = mounted c"
  by (induction n arbitrary: c) (simp_all add: tick_fields)

lemma DriftPanel_ticks:
  "hooks (run DriftPanel_step (replicate n (Poll Tick)) c) = hooks c \<and>
   mounted (run DriftPanel_step (replicate n (Poll Tick)) c) = mounted c"
  by (induction n arbitrary: c) (simp_all add: tick_fields)

text \<open>No event of a panel takes a value out of \<open>data\<close> or out of \<open>error\<close>.\<close>

lemma MetricsPanel_step_keeps_cells:
  "(data (hooks c) \<noteq> None \<longrightarrow> data (hooks (MetricsPanel_step ev c)) \<noteq> None) \<and>
   (error (hooks c) \<noteq> None \<longrightarrow> error (hooks (MetricsPanel_step ev c)) \<noteq> None)"
  by (cases ev)
    (simp_all add: tick_fields unmount_fields load_settled_hooks complete_fields
      split: option.splits settled.splits)

lemma MetricsPanel_run_keeps_cells:
  "(data (hooks c) \<noteq> None \<longrightarrow> data (hooks (run MetricsPanel_step es c)) \<noteq> None) \<and>
   (error (hooks c) \<noteq> None \<longrightarrow> error (hooks (run MetricsPanel_step es c)) \<noteq> None)"
proof (induction es arbitrary: c)
  case Nil
  show ?case by simp
next
  case (Cons ev es)
  from MetricsPanel_step_keeps_cells [of c ev] Cons.IH [of "MetricsPanel_step ev c"]
  show ?case by simp
qed

lemma selectedQuery_effect_poll_cells:
  "data (hooks (selectedQuery_effect c)) = data (hooks c)"
  "error (hooks (selectedQuery_effect c)) = error (hooks c)"
  by (simp_all add: selectedQuery_effect_def Let_def setExecResult_def setExecLoading_def
      set_state_def issue_def split: option.splits)

lemma DriftPanel_step_keeps_cells:
  "(data (hooks c) \<noteq> None \<longrightarrow> data (hooks (DriftPanel_step ev c)) \<noteq> None) \<and>
   (error (hooks c) \<noteq> None \<longrightarrow> error (hooks (DriftPanel_step ev c)) \<noteq> None)"
proof (cases ev)
  case (Poll pe)
  then show ?thesis
    by (cases pe)
      (simp_all add: tick_fields unmount_fields load_settled_hooks complete_fields
        split: option.splits settled.splits request.splits)
next
  case (SetFilter v)
  then show ?thesis
    by (simp add: filter_effect_def load_def setFilter_def set_state_def clearInterval_def
        setInterval_def issue_def)
next
  case (SetSelectedQuery q)
  then show ?thesis
    by (simp add: selectedQuery_effect_poll_cells setSelectedQuery_def set_state_def)
next
  case (ExecSettled i out)
  then show ?thesis
    by (simp add: exec_settled_hooks complete_fields split: option.splits request.splits)
qed

lemma DriftPanel_run_keeps_cells:
  "(data (hooks c) \<noteq> None \<longrightarrow> data (hooks (run DriftPanel_step es c)) \<noteq> None) \<and>
   (error (hooks c) \<noteq> None \<longrightarrow> error (hooks (run DriftPanel_step es c)) \<noteq> None)"
proof (induction es arbitrary: c)
  case Nil
  show ?case by simp
next
  case (Cons ev es)
  from DriftPanel_step_keeps_cells [of c ev] Cons.IH [of "DriftPanel_step ev c"]
  show ?case by simp
qed

text \<open>
  A success, any number of ticks, a failure, any number of ticks, a success: the polls may
  overlap (no tick in between) or follow one another (each issued by a tick).
\<close>

lemma MetricsPanel_success_failure_success:
  assumes "mounted c" and "pending i c = Some r"
    and "pending j (run MetricsPanel_step (Settled i (Fulfilled d) # replicate n Tick) c) = Some r'"
  shows "hooks (run MetricsPanel_step (Settled i (Fulfilled d) # replicate n Tick) c)
           = (hooks c)\<lparr>data := Some d\<rparr>"
    and "hooks (run MetricsPanel_step
           (Settled i (Fulfilled d) # replicate n Tick @ Settled j (Rejected e) # replicate m Tick) c)
           = (hooks c)\<lparr>data := Some d, error := Some (message e)\<rparr>"
    and "pending k (run MetricsPanel_step
           (Settled i (Fulfilled d) # replicate n Tick @ Settled j (Rejected e) # replicate m Tick) c)
           = Some r'' \<Longrightarrow>
         hooks (run MetricsPanel_step
           (Settled i (Fulfilled d) # replicate n Tick @ Settled j (Rejected e) # replicate m Tick
              @ [Settled k (Fulfilled d')]) c)
           = (hooks c)\<lparr>data := Some d', error := Some (message e)\<rparr>"
proof -
  let ?c1 = "run MetricsPanel_step (Settled i (Fulfilled d) # replicate n Tick) c"
  let ?c2 = "run MetricsPanel_step (Settled j (Rejected e) # replicate m Tick) ?c1"
  have s1: "hooks (MetricsPanel_step (Settled i (Fulfilled d)) c) = (hooks c)\<lparr>data := Some d\<rparr>"
    using MetricsPanel_settled_hooks [OF assms(1,2), of "Fulfilled d"] by simp
  have h1: "hooks ?c1 = (hooks c)\<lparr>data := Some d\<rparr>" and m1: "mounted ?c1"
    using s1 assms(1) MetricsPanel_ticks [of n "MetricsPanel_step (Settled i (Fulfilled d)) c"]
      MetricsPanel_settled_mounted [of i "Fulfilled d" c]
    by simp_all
  have s2: "hooks (MetricsPanel_step (Settled j (Rejected e)) ?c1)
      = (hooks c)\<lparr>data := Some d, error := Some (message e)\<rparr>"
    using MetricsPanel_settled_hooks [OF m1 assms(3), of "Rejected e"] h1 by simp
  have h2: "hooks ?c2 = (hooks c)\<lparr>data := Some d, error := Some (message e)\<rparr>" and m2: "mounted ?c2"
    using s2 m1 MetricsPanel_ticks [of m "MetricsPanel_step (Settled j (Rejected e)) ?c1"]
      MetricsPanel_settled_mounted [of j "Rejected e" ?c1]
    by simp_all
  have e2: "run MetricsPanel_step
      (Settled i (Fulfilled d) # replicate n Tick @ Settled j (Rejected e) # replicate m Tick) c = ?c2"
    using run_append [of MetricsPanel_step "Settled i (Fulfilled d) # replicate n Tick"
        "Settled j (Rejected e) # replicate m Tick" c]
    by (simp del: MetricsPanel_step.simps)
  have e3: "run MetricsPanel_step
      (Settled i (Fulfilled d) # replicate n Tick @ Settled j (Rejected e) # replicate m Tick
         @ [Settled k (Fulfilled d')]) c = MetricsPanel_step (Settled k (Fulfilled d')) ?c2"
    using run_append [of MetricsPanel_step
        "Settled i (Fulfilled d) # replicate n Tick @ Settled j (Rejected e) # replicate m Tick"
        "[Settled k (Fulfilled d')]" c] e2
    by (simp del: MetricsPanel_step.simps)
  show "hooks ?c1 = (hooks c)\<lparr>data := Some d\<rparr>"
    by (rule h1)
  show "hooks (run MetricsPanel_step
      (Settled i (Fulfilled d) # replicate n Tick @ Settled j (Rejected e) # replicate m Tick) c)
      = (hooks c)\<lparr>data := Some d, error := Some (message e)\<rparr>"
    unfolding e2 by (rule h2)
  assume "pending k (run MetricsPanel_step
      (Settled i (Fulfilled d) # replicate n Tick @ Settled j (Rejected e) # replicate m Tick) c)
      = Some r''"
  then have p3: "pending k ?c2 = Some r''"
    unfolding e2 .
  show "hooks (run MetricsPanel_step
      (Settled i (Fulfilled d) # replicate n Tick @ Settled j (Rejected e) # replicate m Tick
         @ [Settled k (Fulfilled d')]) c)
      = (hooks c)\<lparr>data := Some d', error := Some (message e)\<rparr>"
    unfolding e3 using MetricsPanel_settled_hooks [OF m2 p3, of "Fulfilled d'"] h2 by simp
qed

lemma DriftPanel_success_failure_success:
  assumes "mounted c" and "pending i c = Some (GetDrift a)"
    and "pending j (run DriftPanel_step (Poll (Settled i (Fulfilled d)) # replicate n (Poll Tick)) c)
           = Some (GetDrift a')"
  shows "hooks (run DriftPanel_step (Poll (Settled i (Fulfilled d)) # replicate n (Poll Tick)) c)
           = (hooks c)\<lparr>data := Some d\<rparr>"
    and "hooks (run DriftPanel_step
           (Poll (Settled i (Fulfilled d)) # replicate n (Poll Tick)
              @ Poll (Settled j (Rejected e)) # replicate m (Poll Tick)) c)
           = (hooks c)\<lparr>data := Some d, error := Some (message e)\<rparr>"
    and "pending k (run DriftPanel_step
           (Poll (Settled i (Fulfilled d)) # replicate n (Poll Tick)
              @ Poll (Settled j (Rejected e)) # replicate m (Poll Tick)) c)
           = Some (GetDrift a'') \<Longrightarrow>
         hooks (run DriftPanel_step
           (Poll (Settled i (Fulfilled d)) # replicate n (Poll Tick)
              @ Poll (Settled j (Rejected e)) # replicate m (Poll Tick)
              @ [Poll (Settled k (Fulfilled d'))]) c)
           = (hooks c)\<lparr>data := Some d', error := Some (message e)\<rparr>"
proof -
  let ?c1 = "run DriftPanel_step (Poll (Settled i (Fulfilled d)) # replicate n (Poll Tick)) c"
  let ?c2 = "run DriftPanel_step (Poll (Settled j (Rejected e)) # replicate m (Poll Tick)) ?c1"
  have s1: "hooks (DriftPanel_step (Poll (Settled i (Fulfilled d))) c) = (hooks c)\<lparr>data := Some d\<rparr>"
    using DriftPanel_settled_hooks [OF assms(1,2), of "Fulfilled d"] by simp
  have h1: "hooks ?c1 = (hooks c)\<lparr>data := Some d\<rparr>" and m1: "mounted ?c1"
    using s1 assms(1) DriftPanel_ticks [of n "DriftPanel_step (Poll (Settled i (Fulfilled d))) c"]
      DriftPanel_settled_mounted [of i "Fulfilled d" c]
    by simp_all
  have s2: "hooks (DriftPanel_step (Poll (Settled j (Rejected e))) ?c1)
      = (hooks c)\<lparr>data := Some d, error := Some (message e)\<rparr>"
    using DriftPanel_settled_hooks [OF m1 assms(3), of "Rejected e"] h1 by simp
  have h2: "hooks ?c2 = (hooks c)\<lparr>data := Some d, error := Some (message e)\<rparr>" and m2: "mounted ?c2"
    using s2 m1 DriftPanel_ticks [of m "DriftPanel_step (Poll (Settled j (Rejected e))) ?c1"]
      DriftPanel_settled_mounted [of j "Rejected e" ?c1]
    by simp_all
  have e2: "run DriftPanel_step
      (Poll (Settled i (Fulfilled d)) # replicate n (Poll Tick)
         @ Poll (Settled j (Rejected e)) # replicate m (Poll Tick)) c = ?c2"
    using run_append [of DriftPanel_step "Poll (Settled i (Fulfilled d)) # replicate n (Poll Tick)"
        "Poll (Settled j (Rejected e)) # replicate m (Poll Tick)" c]
    by (simp del: DriftPanel_step.simps)
  have e3: "run DriftPanel_step
      (Poll (Settled i (Fulfilled d)) # replicate n (Poll Tick)
         @ Poll (Settled j (Rejected e)) # replicate m (Poll Tick)
         @ [Poll (Settled k (Fulfilled d'))]) c = DriftPanel_step (Poll (Settled k (Fulfilled d'))) ?c2"
    using run_append [of DriftPanel_step
        "Poll (Settled i (Fulfilled d)) # replicate n (Poll Tick)
           @ Poll (Settled j (Rejected e)) # replicate m (Poll Tick)"
        "[Poll (Settled k (Fulfilled d'))]" c] e2
    by (simp del: DriftPanel_step.simps)
  show "hooks ?c1 = (hooks c)\<lparr>data := Some d\<rparr>"
    by (rule h1)
  show "hooks (run DriftPanel_step
      (Poll (Settled i (Fulfilled d)) # replicate n (Poll Tick)
         @ Poll (Settled j (Rejected e)) # replicate m (Poll Tick)) c)
      = (hooks c)\<lparr>data := Some d, error := Some (message e)\<rparr>"
    unfolding e2 by (rule h2)
  assume "pending k (run DriftPanel_step
      (Poll (Settled i (Fulfilled d)) # replicate n (Poll Tick)
         @ Poll (Settled j (Rejected e)) # replicate m (Poll Tick)) c)
      = Some (GetDrift a'')"
  then have p3: "pending k ?c2 = Some (GetDrift a'')"
    unfolding e2 .
  show "hooks (run DriftPanel_step
      (Poll (Settled i (Fulfilled d)) # replicate n (Poll Tick)
         @ Poll (Settled j (Rejected e)) # replicate m (Poll Tick)
         @ [Poll (Settled k (Fulfilled d'))]) c)
      = (hooks c)\<lparr>data := Some d', error := Some (message e)\<rparr>"
    unfolding e3 using DriftPanel_settled_hooks [OF m2 p3, of "Fulfilled d'"] h2 by simp
qed

text \<open>
  C2, as the code has it. In MetricsPanel and in DriftPanel a failed poll leaves \<open>data\<close>
  as it was and stores the failure's message in \<open>error\<close>; a successful poll replaces
  \<open>data\<close> and leaves \<open>error\<close> as it was. No event ever empties \<open>data\<close>, and none ever
  resets \<open>error\<close>: once set it stays set. So after a success, a failure and a second
  success (with any number of ticks in between, the polls overlapping or following one
  another), \<open>data\<close> is the first payload until the second success lands and the second
  payload afterwards, and \<open>error\<close> still holds the failure's message.
\<close>

theorem failed_poll_keeps_data_and_success_keeps_error:
  "(mounted c \<and> pending i c = Some r \<longrightarrow>
      hooks (MetricsPanel_step (Settled i (Rejected e)) c) = (hooks c)\<lparr>error := Some (message e)\<rparr>
      \<and> hooks (MetricsPanel_step (Settled i (Fulfilled d)) c) = (hooks c)\<lparr>data := Some d\<rparr>)
   \<and> (data (hooks c) \<noteq> None \<longrightarrow> data (hooks (run MetricsPanel_step es c)) \<noteq> None)
   \<and> (error (hooks c) \<noteq> None \<longrightarrow> error (hooks (run MetricsPanel_step es c)) \<noteq> None)
   \<and> (mounted c \<and> pending i c = Some r
        \<and> pending j (run MetricsPanel_step (Settled i (Fulfilled d) # replicate n Tick) c) = Some r'
        \<and> pending k (run MetricsPanel_step
             (Settled i (Fulfilled d) # replicate n Tick @ Settled j (Rejected e) # replicate m Tick) c)
            = Some r'' \<longrightarrow>
      hooks (run MetricsPanel_step (Settled i (Fulfilled d) # replicate n Tick) c)
        = (hooks c)\<lparr>data := Some d\<rparr>
      \<and> hooks (run MetricsPanel_step
           (Settled i (Fulfilled d) # replicate n Tick @ Settled j (Rejected e) # replicate m Tick) c)
        = (hooks c)\<lparr>data := Some d, error := Some (message e)\<rparr>
      \<and> hooks (run MetricsPanel_step
           (Settled i (Fulfilled d) # replicate n Tick @ Settled j (Rejected e) # replicate m Tick
              @ [Settled k (Fulfilled d')]) c)
        = (hooks c)\<lparr>data := Some d', error := Some (message e)\<rparr>)
   \<and> (mounted p \<and> pending i p = Some (GetDrift a) \<longrightarrow>
      hooks (DriftPanel_step (Poll (Settled i (Rejected e))) p) = (hooks p)\<lparr>error := Some (message e)\<rparr>
      \<and> hooks (DriftPanel_step (Poll (Settled i (Fulfilled b))) p) = (hooks p)\<lparr>data := Some b\<rparr>)
   \<and> (data (hooks p) \<noteq> None \<longrightarrow> data (hooks (run DriftPanel_step ds p)) \<noteq> None)
   \<and> (error (hooks p) \<noteq> None \<longrightarrow> error (hooks (run DriftPanel_step ds p)) \<noteq> None)
   \<and> (mounted p \<and> pending i p = Some (GetDrift a)
        \<and> pending j (run DriftPanel_step (Poll (Settled i (Fulfilled b)) # replicate n (Poll Tick)) p)
            = Some (GetDrift a')
        \<and> pending k (run DriftPanel_step
             (Poll (Settled i (Fulfilled b)) # replicate n (Poll Tick)
                @ Poll (Settled j (Rejected e)) # replicate m (Poll Tick)) p)
            = Some (GetDrift a'') \<longrightarrow>
      hooks (run DriftPanel_step (Poll (Settled i (Fulfilled b)) # replicate n (Poll Tick)) p)
        = (hooks p)\<lparr>data := Some b\<rparr>
      \<and> hooks (run DriftPanel_step
           (Poll (Settled i (Fulfilled b)) # replicate n (Poll Tick)
              @ Poll (Settled j (Rejected e)) # replicate m (Poll Tick)) p)
        = (hooks p)\<lparr>data := Some b, error := Some (message e)\<rparr>
      \<and> hooks (run DriftPanel_step
           (Poll (Settled i (Fulfilled b)) # replicate n (Poll Tick)
              @ Poll (Settled j (Rejected e)) # replicate m (Poll Tick)
              @ [Poll (Settled k (Fulfilled b'))]) p)
        = (hooks p)\<lparr>data := Some b', error := Some (message e)\<rparr>)"
proof -
  have m1: "mounted c \<and> pending i c = Some r \<longrightarrow>
      hooks (MetricsPanel_step (Settled i (Rejected e)) c) = (hooks c)\<lparr>error := Some (message e)\<rparr>
      \<and> hooks (MetricsPanel_step (Settled i (Fulfilled d)) c) = (hooks c)\<lparr>data := Some d\<rparr>"
    using MetricsPanel_settled_hooks [of c i r "Rejected e"]
      MetricsPanel_settled_hooks [of c i r "Fulfilled d"]
    by simp
  have d1: "mounted p \<and> pending i p = Some (GetDrift a) \<longrightarrow>
      hooks (DriftPanel_step (Poll (Settled i (Rejected e))) p) = (hooks p)\<lparr>error := Some (message e)\<rparr>
      \<and> hooks (DriftPanel_step (Poll (Settled i (Fulfilled b))) p) = (hooks p)\<lparr>data := Some b\<rparr>"
    using DriftPanel_settled_hooks [of p i a "Rejected e"]
      DriftPanel_settled_hooks [of p i a "Fulfilled b"]
    by simp
  note m2 = MetricsPanel_run_keeps_cells [of c es]
  note d2 = DriftPanel_run_keeps_cells [of p ds]
  have m3: "mounted c \<and> pending i c = Some r
        \<and> pending j (run MetricsPanel_step (Settled i (Fulfilled d) # replicate n Tick) c) = Some r'
        \<and> pending k (run MetricsPanel_step
             (Settled i (Fulfilled d) # replicate n Tick @ Settled j (Rejected e) # replicate m Tick) c)
            = Some r'' \<longrightarrow>
      hooks (run MetricsPanel_step (Settled i (Fulfilled d) # replicate n Tick) c)
        = (hooks c)\<lparr>data := Some d\<rparr>
      \<and> hooks (run MetricsPanel_step
           (Settled i (Fulfilled d) # replicate n Tick @ Settled j (Rejected e) # replicate m Tick) c)
        = (hooks c)\<lparr>data := Some d, error := Some (message e)\<rparr>
      \<and> hooks (run MetricsPanel_step
           (Settled i (Fulfilled d) # replicate n Tick @ Settled j (Rejected e) # replicate m Tick
              @ [Settled k (Fulfilled d')]) c)
        = (hooks c)\<lparr>data := Some d', error := Some (message e)\<rparr>"
  proof (intro impI conjI)
    assume a: "mounted c \<and> pending i c = Some r
        \<and> pending j (run MetricsPanel_step (Settled i (Fulfilled d) # replicate n Tick) c) = Some r'
        \<and> pending k (run MetricsPanel_step
             (Settled i (Fulfilled d) # replicate n Tick @ Settled j (Rejected e) # replicate m Tick) c)
            = Some r''"
    then have a1: "mounted c" and a2: "pending i c = Some r"
      and a3: "pending j (run MetricsPanel_step (Settled i (Fulfilled d) # replicate n Tick) c) = Some r'"
      and a4: "pending k (run MetricsPanel_step
             (Settled i (Fulfilled d) # replicate n Tick @ Settled j (Rejected e) # replicate m Tick) c)
            = Some r''"
      by blast+
    show "hooks (run MetricsPanel_step (Settled i (Fulfilled d) # replicate n Tick) c)
        = (hooks c)\<lparr>data := Some d\<rparr>"
      by (rule MetricsPanel_success_failure_success(1) [OF a1 a2 a3])
    show "hooks (run MetricsPanel_step
           (Settled i (Fulfilled d) # replicate n Tick @ Settled j (Rejected e) # replicate m Tick) c)
        = (hooks c)\<lparr>data := Some d, error := Some (message e)\<rparr>"
      by (rule MetricsPanel_success_failure_success(2) [OF a1 a2 a3])
    show "hooks (run MetricsPanel_step
           (Settled i (Fulfilled d) # replicate n Tick @ Settled j (Rejected e) # replicate m Tick
              @ [Settled k (Fulfilled d')]) c)
        = (hooks c)\<lparr>data := Some d', error := Some (message e)\<rparr>"
      by (rule MetricsPanel_success_failure_success(3) [OF a1 a2 a3 a4])
  qed
  have d3: "mounted p \<and> pending i p = Some (GetDrift a)
        \<and> pending j (run DriftPanel_step (Poll (Settled i (Fulfilled b)) # replicate n (Poll Tick)) p)
            = Some (GetDrift a')
        \<and> pending k (run DriftPanel_step
             (Poll (Settled i (Fulfilled b)) # replicate n (Poll Tick)
                @ Poll (Settled j (Rejected e)) # replicate m (Poll Tick)) p)
            = Some (GetDrift a'') \<longrightarrow>
      hooks (run DriftPanel_step (Poll (Settled i (Fulfilled b)) # replicate n (Poll Tick)) p)
        = (hooks p)\<lparr>data := Some b\<rparr>
      \<and> hooks (run DriftPanel_step
           (Poll (Settled i (Fulfilled b)) # replicate n (Poll Tick)
              @ Poll (Settled j (Rejected e)) # replicate m (Poll Tick)) p)
        = (hooks p)\<lparr>data := Some b, error := Some (message e)\<rparr>
      \<and> hooks (run DriftPanel_step
           (Poll (Settled i (Fulfilled b)) # replicate n (Poll Tick)
              @ Poll (Settled j (Rejected e)) # replicate m (Poll Tick)
              @ [Poll (Settled k (Fulfilled b'))]) p)
        = (hooks p)\<lparr>data := Some b', error := Some (message e)\<rparr>"
  proof (intro impI conjI)
    assume a: "mounted p \<and> pending i p = Some (GetDrift a)
        \<and> pending j (run DriftPanel_step (Poll (Settled i (Fulfilled b)) # replicate n (Poll Tick)) p)
            = Some (GetDrift a')
        \<and> pending k (run DriftPanel_step
             (Poll (Settled i (Fulfilled b)) # replicate n (Poll Tick)
                @ Poll (Settled j (Rejected e)) # replicate m (Poll Tick)) p)
            = Some (GetDrift a'')"
    then have a1: "mounted p" and a2: "pending i p = Some (GetDrift a)"
      and a3: "pending j (run DriftPanel_step (Poll (Settled i (Fulfilled b)) # replicate n (Poll Tick)) p)
            = Some (GetDrift a')"
      and a4: "pending k (run DriftPanel_step
             (Poll (Settled i (Fulfilled b)) # replicate n (Poll Tick)
                @ Poll (Settled j (Rejected e)) # replicate m (Poll Tick)) p)
            = Some (GetDrift a'')"
      by blast+
    show "hooks (run DriftPanel_step (Poll (Settled i (Fulfilled b)) # replicate n (Poll Tick)) p)
        = (hooks p)\<lparr>data := Some b\<rparr>"
      by (rule DriftPanel_success_failure_success(1) [OF a1 a2 a3])
    show "hooks (run DriftPanel_step
           (Poll (Settled i (Fulfilled b)) # replicate n (Poll Tick)
              @ Poll (Settled j (Rejected e)) # replicate m (Poll Tick)) p)
        = (hooks p)\<lparr>data := Some b, error := Some (message e)\<rparr>"
      by (rule DriftPanel_success_failure_success(2) [OF a1 a2 a3])
    show "hooks (run DriftPanel_step
           (Poll (Settled i (Fulfilled b)) # replicate n (Poll Tick)
              @ Poll (Settled j (Rejected e)) # replicate m (Poll Tick)
              @ [Poll (Settled k (Fulfilled b'))]) p)
        = (hooks p)\<lparr>data := Some b', error := Some (message e)\<rparr>"
      by (rule DriftPanel_success_failure_success(3) [OF a1 a2 a3 a4])
  qed
  from m1 m2 m3 d1 d2 d3 show ?thesis
    by blast
qed

theorem failed_poll_keeps_data_and_success_keeps_error_witness:
  "mounted (MetricsPanel_mount :: (nat poll_state, request) component)
   \<and> pending 0 (MetricsPanel_mount :: (nat poll_state, request) component) = Some GetMetrics
   \<and> pending 1 (run MetricsPanel_step [Settled 0 (Fulfilled (10::nat)), Tick] MetricsPanel_mount)
       = Some GetMetrics
   \<and> pending 2 (run MetricsPanel_step
        [Settled 0 (Fulfilled (10::nat)), Tick, Settled 1 (Rejected (Failure ''timeout'')), Tick]
        MetricsPanel_mount) = Some GetMetrics
   \<and> hooks (run MetricsPanel_step
        [Settled 0 (Fulfilled (10::nat)), Tick, Settled 1 (Rejected (Failure ''timeout'')), Tick]
        MetricsPanel_mount) = \<lparr>data = Some 10, error = Some ''timeout''\<rparr>
   \<and> hooks (run MetricsPanel_step
        [Settled 0 (Fulfilled (10::nat)), Tick, Settled 1 (Rejected (Failure ''timeout'')), Tick,
         Settled 2 (Fulfilled 20)]
        MetricsPanel_mount) = \<lparr>data = Some 20, error = Some ''timeout''\<rparr>
   \<and> mounted (DriftPanel_mount :: nat DriftPanel)
   \<and> pending 0 (DriftPanel_mount :: nat DriftPanel) = Some (GetDrift None)
   \<and> data (hooks (run DriftPanel_step
        [Poll (Settled 0 (Fulfilled (10::nat))), Poll Tick,
         Poll (Settled 1 (Rejected (Failure ''timeout''))), Poll Tick, Poll (Settled 2 (Fulfilled 20))]
        DriftPanel_mount)) = Some 20
   \<and> error (hooks (run DriftPanel_step
        [Poll (Settled 0 (Fulfilled (10::nat))), Poll Tick,
         Poll (Settled 1 (Rejected (Failure ''timeout''))), Poll Tick, Poll (Settled 2 (Fulfilled 20))]
        DriftPanel_mount)) = Some ''timeout''"
proof -
  let ?c = "MetricsPanel_mount :: (nat poll_state, request) component"
  let ?p = "DriftPanel_mount :: nat DriftPanel"
  have l: "replicate (Suc 0) (Tick :: nat poll_event) = [Tick]"
    "replicate (Suc 0) (Poll Tick :: nat drift_event) = [Poll Tick]"
    by simp_all
  have m: "mounted ?c" "pending 0 ?c = Some GetMetrics"
    "pending 1 (run MetricsPanel_step (Settled 0 (Fulfilled 10) # replicate (Suc 0) Tick) ?c)
       = Some GetMetrics"
    "pending 2 (run MetricsPanel_step
       (Settled 0 (Fulfilled 10) # replicate (Suc 0) Tick
          @ Settled 1 (Rejected (Failure ''timeout'')) # replicate (Suc 0) Tick) ?c) = Some GetMetrics"
    by (simp_all add: MetricsPanel_defs runtime_defs)
  have d: "mounted ?p" "pending 0 ?p = Some (GetDrift None)"
    "pending 1 (run DriftPanel_step (Poll (Settled 0 (Fulfilled 10)) # replicate (Suc 0) (Poll Tick)) ?p)
       = Some (GetDrift None)"
    "pending 2 (run DriftPanel_step
       (Poll (Settled 0 (Fulfilled 10)) # replicate (Suc 0) (Poll Tick)
          @ Poll (Settled 1 (Rejected (Failure ''timeout''))) # replicate (Suc 0) (Poll Tick)) ?p)
       = Some (GetDrift None)"
    by (simp_all add: DriftPanel_defs runtime_defs)
  have h: "hooks ?c = \<lparr>data = None, error = None\<rparr>"
    by (simp add: MetricsPanel_defs runtime_defs)
  note t = failed_poll_keeps_data_and_success_keeps_error
    [where c = ?c and i = 0 and r = GetMetrics and j = 1 and k = 2 and n = "Suc 0" and m = "Suc 0"
      and d = 10 and d' = 20 and e = "Failure ''timeout''" and r' = GetMetrics and r'' = GetMetrics
      and es = "[]" and p = ?p and a = None and a' = None and a'' = None and b = 10 and b' = 20
      and ds = "[]"]
  from t m d have
    "hooks (run MetricsPanel_step
        (Settled 0 (Fulfilled 10) # replicate (Suc 0) Tick
           @ Settled 1 (Rejected (Failure ''timeout'')) # replicate (Suc 0) Tick) ?c)
       = (hooks ?c)\<lparr>data := Some 10, error := Some (message (Failure ''timeout''))\<rparr>"
    and "hooks (run MetricsPanel_step
        (Settled 0 (Fulfilled 10) # replicate (Suc 0) Tick
           @ Settled 1 (Rejected (Failure ''timeout'')) # replicate (Suc 0) Tick
           @ [Settled 2 (Fulfilled 20)]) ?c)
       = (hooks ?c)\<lparr>data := Some 20, error := Some (message (Failure ''timeout''))\<rparr>"
    and "hooks (run DriftPanel_step
        (Poll (Settled 0 (Fulfilled 10)) # replicate (Suc 0) (Poll Tick)
           @ Poll (Settled 1 (Rejected (Failure ''timeout''))) # replicate (Suc 0) (Poll Tick)
           @ [Poll (Settled 2 (Fulfilled 20))]) ?p)
       = (hooks ?p)\<lparr>data := Some 20, error := Some (message (Failure ''timeout''))\<rparr>"
    by blast+
  then have
    "hooks (run MetricsPanel_step
        [Settled 0 (Fulfilled 10), Tick, Settled 1 (Rejected (Failure ''timeout'')), Tick] ?c)
       = \<lparr>data = Some 10, error = Some ''timeout''\<rparr>"
    and "hooks (run MetricsPanel_step
        [Settled 0 (Fulfilled 10), Tick, Settled 1 (Rejected (Failure ''timeout'')), Tick,
         Settled 2 (Fulfilled 20)] ?c)
       = \<lparr>data = Some 20, error = Some ''timeout''\<rparr>"
    and "data (hooks (run DriftPanel_step
        [Poll (Settled 0 (Fulfilled 10)), Poll Tick,
         Poll (Settled 1 (Rejected (Failure ''timeout''))), Poll Tick, Poll (Settled 2 (Fulfilled 20))] ?p))
       = Some 20"
    and "error (hooks (run DriftPanel_step
        [Poll (Settled 0 (Fulfilled 10)), Poll Tick,
         Poll (Settled 1 (Rejected (Failure ''timeout''))), Poll Tick, Poll (Settled 2 (Fulfilled 20))] ?p))
       = Some ''timeout''"
    unfolding l h by simp_all
  moreover have "pending 1 (run MetricsPanel_step [Settled 0 (Fulfilled (10::nat)), Tick] MetricsPanel_mount)
       = Some GetMetrics"
    "pending 2 (run MetricsPanel_step
        [Settled 0 (Fulfilled (10::nat)), Tick, Settled 1 (Rejected (Failure ''timeout'')), Tick]
        MetricsPanel_mount) = Some GetMetrics"
    using m(3,4) unfolding l by simp_all
  ultimately show ?thesis
    using m(1,2) d(1,2) by blast
qed

text \<open>
  C2 as stated fails: in MetricsPanel, after a success, a failed poll and a second
  success, \<open>error\<close> still holds the failure's message and is not null.
\<close>

theorem error_not_cleared_by_success_counterexample:
  "error (hooks (run MetricsPanel_step
      [Settled 0 (Fulfilled (1::nat)), Tick, Settled 1 (Rejected (Failure ''Network Error'')),
       Tick, Settled 2 (Fulfilled 2)] MetricsPanel_mount)) = Some ''Network Error''
   \<and> data (hooks (run MetricsPanel_step
      [Settled 0 (Fulfilled (1::nat)), Tick, Settled 1 (Rejected (Failure ''Network Error'')),
       Tick, Settled 2 (Fulfilled 2)] MetricsPanel_mount)) = Some 2"
  by (simp add: MetricsPanel_defs runtime_defs)

section \<open>Polling: the order in which responses are applied\<close>

text \<open>
  C7, as the code has it. Responses are applied in the order in which they resolve, and
  nothing compares the order of issue: when the response of the later-issued of two polls
  has been applied and the response of the earlier-issued one resolves afterwards, it is
  applied as well and \<open>data\<close> becomes its payload. A tick issues a new request whether or
  not earlier ones are still in flight. Stated for MetricsPanel and DriftPanel.
\<close>

theorem responses_applied_in_completion_order:
  assumes "mounted c" and "pending i c = Some r" and "pending j c = Some r'" and "i < j"
    and "timer c = Some q"
    and "mounted p" and "pending i p = Some (GetDrift a)" and "pending j p = Some (GetDrift a')"
    and "timer p = Some q'"
  shows
    "data (hooks (run MetricsPanel_step [Settled j (Fulfilled newer), Settled i (Fulfilled older)] c))
       = Some older
     \<and> inflight (MetricsPanel_step Tick c) = inflight c @ [(issued c, q)]
     \<and> data (hooks (run DriftPanel_step
          [Poll (Settled j (Fulfilled newer')), Poll (Settled i (Fulfilled older'))] p))
       = Some older'
     \<and> inflight (DriftPanel_step (Poll Tick) p) = inflight p @ [(issued p, q')]"
proof -
  let ?c1 = "MetricsPanel_step (Settled j (Fulfilled newer)) c"
  let ?p1 = "DriftPanel_step (Poll (Settled j (Fulfilled newer'))) p"
  have c1: "mounted ?c1" "pending i ?c1 = Some r"
    using assms(1,2,4) MetricsPanel_settled_mounted [of j "Fulfilled newer" c]
      MetricsPanel_settled_pending [of i j "Fulfilled newer" c]
    by auto
  have m: "data (hooks (MetricsPanel_step (Settled i (Fulfilled older)) ?c1)) = Some older"
    using MetricsPanel_settled_hooks [OF c1, of "Fulfilled older"] by simp
  have p1: "mounted ?p1" "pending i ?p1 = Some (GetDrift a)"
    using assms(6,7,4) DriftPanel_settled_mounted [of j "Fulfilled newer'" p]
      DriftPanel_settled_pending [of i j "Fulfilled newer'" p]
    by auto
  have d: "data (hooks (DriftPanel_step (Poll (Settled i (Fulfilled older'))) ?p1)) = Some older'"
    using DriftPanel_settled_hooks [OF p1, of "Fulfilled older'"] by simp
  have t: "inflight (MetricsPanel_step Tick c) = inflight c @ [(issued c, q)]"
    "inflight (DriftPanel_step (Poll Tick) p) = inflight p @ [(issued p, q')]"
    using assms(5,9) by (simp_all add: tick_live issue_fields)
  from m d t show ?thesis by simp
qed

theorem responses_applied_in_completion_order_witness:
  "mounted MetricsPanel_three_inflight
   \<and> pending 0 MetricsPanel_three_inflight = Some GetMetrics
   \<and> pending 1 MetricsPanel_three_inflight = Some GetMetrics
   \<and> timer MetricsPanel_three_inflight = Some GetMetrics
   \<and> mounted DriftPanel_three_inflight
   \<and> pending 0 DriftPanel_three_inflight = Some (GetDrift None)
   \<and> pending 1 DriftPanel_three_inflight = Some (GetDrift None)
   \<and> timer DriftPanel_three_inflight = Some (GetDrift None)
   \<and> data (hooks (run MetricsPanel_step [Settled 1 (Fulfilled 20), Settled 0 (Fulfilled 10)]
        MetricsPanel_three_inflight)) = Some 10
   \<and> data (hooks (run DriftPanel_step [Poll (Settled 1 (Fulfilled 20)), Poll (Settled 0 (Fulfilled 10))]
        DriftPanel_three_inflight)) = Some 10"
proof -
  have m: "mounted MetricsPanel_three_inflight"
    "pending 0 MetricsPanel_three_inflight = Some GetMetrics"
    "pending 1 MetricsPanel_three_inflight = Some GetMetrics"
    by (simp_all add: MetricsPanel_three_inflight_def MetricsPanel_defs runtime_defs)
  have tm: "timer MetricsPanel_three_inflight = Some GetMetrics"
    by (simp add: MetricsPanel_three_inflight_def MetricsPanel_defs runtime_defs)
  have d: "mounted DriftPanel_three_inflight"
    "pending 0 DriftPanel_three_inflight = Some (GetDrift None)"
    "pending 1 DriftPanel_three_inflight = Some (GetDrift None)"
    by (simp_all add: DriftPanel_three_inflight_def DriftPanel_defs runtime_defs)
  have td: "timer DriftPanel_three_inflight = Some (GetDrift None)"
    by (simp add: DriftPanel_three_inflight_def DriftPanel_defs runtime_defs)
  have n: "(0::nat) < 1"
    by simp
  from responses_applied_in_completion_order [OF m n tm d td, of 20 10 20 10]
  show ?thesis using m tm d td by blast
qed

text \<open>
  C7 as stated fails: in MetricsPanel the mount fetch (number 0) is still in flight when
  the first tick issues fetch number 1, so two fetches are in flight at once; the response
  of fetch 1 is applied first, and when the response of fetch 0 resolves afterwards it is
  applied too, so \<open>data\<close> goes back from the newer payload to the older one.
\<close>

theorem older_response_overwrites_newer_counterexample:
  "inflight (run MetricsPanel_step [Tick] (MetricsPanel_mount :: (nat poll_state, request) component))
     = [(0, GetMetrics), (1, GetMetrics)]
   \<and> data (hooks (run MetricsPanel_step [Tick, Settled 1 (Fulfilled (20::nat))] MetricsPanel_mount))
     = Some 20
   \<and> data (hooks (run MetricsPanel_step
        [Tick, Settled 1 (Fulfilled (20::nat)), Settled 0 (Fulfilled 10)] MetricsPanel_mount))
     = Some 10"
  by (simp add: MetricsPanel_defs runtime_defs)

section \<open>Facts about selecting a query and changing the filter\<close>

lemma pending_issue:
  "pending j (issue r c) =
     (case pending j c of Some r' \<Rightarrow> Some r' | None \<Rightarrow> if j = issued c then Some r else None)"
  by (simp add: pending_def issue_def map_add_def split: option.splits)

lemma setSelectedQuery_fields:
  "mounted c \<Longrightarrow> hooks (setSelectedQuery q c) = (hooks c)\<lparr>selectedQuery := q\<rparr>"
  "mounted (setSelectedQuery q c) = mounted c"
  "timer (setSelectedQuery q c) = timer c"
  "inflight (setSelectedQuery q c) = inflight c"
  "issued (setSelectedQuery q c) = issued c"
  by (simp_all add: setSelectedQuery_def set_state_def)

lemma select_executable:
  assumes "mounted c" and "selectedQuery (hooks c) \<noteq> Some q"
    and "sql q = Some s" and "agent_type q = Some a" and "s \<noteq> []" and "a \<noteq> []"
    and "\<not> str_includes s ''Not Available''"
  shows "DriftPanel_step (SetSelectedQuery (Some q)) c =
           issue (PostExecute s a) (setExecLoading True (setSelectedQuery (Some q) c))"
  using assms
  by (simp add: selectedQuery_effect_def setSelectedQuery_def set_state_def truthy_def
      opt_chain_def executeSql_def)

lemma select_executable_fields:
  assumes "mounted c" and "selectedQuery (hooks c) \<noteq> Some q"
    and "sql q = Some s" and "agent_type q = Some a" and "s \<noteq> []" and "a \<noteq> []"
    and "\<not> str_includes s ''Not Available''"
  shows "hooks (DriftPanel_step (SetSelectedQuery (Some q)) c) =
           (hooks c)\<lparr>selectedQuery := Some q, execLoading := True\<rparr>"
    and "mounted (DriftPanel_step (SetSelectedQuery (Some q)) c)"
    and "inflight (DriftPanel_step (SetSelectedQuery (Some q)) c) = inflight c @ [(issued c, PostExecute s a)]"
    and "issued (DriftPanel_step (SetSelectedQuery (Some q)) c) = Suc (issued c)"
    and "pending j (DriftPanel_step (SetSelectedQuery (Some q)) c) =
           (case pending j c of Some r' \<Rightarrow> Some r'
            | None \<Rightarrow> if j = issued c then Some (PostExecute s a) else None)"
  unfolding select_executable [OF assms]
  using assms(1)
  by (simp_all add: issue_fields pending_issue setExecLoading_def setSelectedQuery_def
      set_state_hooks set_state_runtime set_state_pending)

lemma select_not_executable:
  assumes "mounted c" and "selectedQuery (hooks c) \<noteq> q"
    and "\<not> truthy (opt_chain q sql) \<or> \<not> truthy (opt_chain q agent_type)"
  shows "DriftPanel_step (SetSelectedQuery q) c = setExecResult None (setSelectedQuery q c)"
  using assms
  by (auto simp add: selectedQuery_effect_def setSelectedQuery_def set_state_def)

lemma select_no_sql_recorded:
  assumes "mounted c" and "selectedQuery (hooks c) \<noteq> Some q"
    and "sql q = Some s" and "str_includes s ''Not Available''" and "truthy (agent_type q)"
  shows "DriftPanel_step (SetSelectedQuery (Some q)) c =
           setExecResult (Some no_sql_recorded) (setSelectedQuery (Some q) c)"
proof -
  from assms(4) have "s \<noteq> []"
    by (cases s) simp_all
  with assms show ?thesis
    by (auto simp add: selectedQuery_effect_def setSelectedQuery_def set_state_def truthy_def
        opt_chain_def split: option.splits)
qed

lemma setExecResult_fields:
  "mounted c \<Longrightarrow> hooks (setExecResult r c) = (hooks c)\<lparr>execResult := r\<rparr>"
  "mounted (setExecResult r c) = mounted c"
  "timer (setExecResult r c) = timer c"
  "inflight (setExecResult r c) = inflight c"
  "issued (setExecResult r c) = issued c"
  by (simp_all add: setExecResult_def set_state_def)

lemma setFilter_step:
  assumes "mounted c" and "filter' (hooks c) \<noteq> v"
  shows "hooks (DriftPanel_step (SetFilter v) c) = (hooks c)\<lparr>filter' := v\<rparr>"
    and "mounted (DriftPanel_step (SetFilter v) c)"
    and "timer (DriftPanel_step (SetFilter v) c) = Some (load_request v)"
    and "inflight (DriftPanel_step (SetFilter v) c) = inflight c @ [(issued c, load_request v)]"
    and "issued (DriftPanel_step (SetFilter v) c) = Suc (issued c)"
    and "pending j (DriftPanel_step (SetFilter v) c) =
           (case pending j c of Some r' \<Rightarrow> Some r'
            | None \<Rightarrow> if j = issued c then Some (load_request v) else None)"
  using assms
  by (simp_all add: filter_effect_def load_def setFilter_def set_state_def clearInterval_def
      setInterval_def issue_def pending_def map_add_def split: option.splits)

lemma load_request_GetDrift: "load_request v = GetDrift (if v = [] then None else Some v)"
  by (simp add: load_request_def fetchDrift_def truthy_def)

lemmas example_defs =
  sample_X_def sample_Y_def sample_not_available_def sample_not_available_no_agent_def
  sample_no_sql_def result_X_def result_Y_def drift_rows_def DriftPanel_loaded_def
  DriftPanel_X_shown_def no_sql_recorded_def

section \<open>The execute fetch and the current selection\<close>

text \<open>
  C1, as the code has it. A response of the execute fetch is applied when it resolves,
  whatever the selection is by then: \<open>execResult\<close> becomes the response (or the error
  result made from the failure) and \<open>execLoading\<close> becomes false; nothing ties a response
  to the selection it was fetched for. So when X is selected, then Y, and the fetch for Y
  resolves before the fetch for X, the selection is Y and the result shown after both is
  the one fetched for X: the result shown is that of the fetch that resolved last.
\<close>

theorem exec_response_applied_whatever_the_selection:
  assumes "mounted c" and "pending i c = Some (PostExecute s a)"
    and "pending (issued c) c = None" and "pending (Suc (issued c)) c = None"
    and "selectedQuery (hooks c) \<noteq> Some x" and "x \<noteq> y"
    and "sql x = Some sx" and "agent_type x = Some ax" and "sx \<noteq> []" and "ax \<noteq> []"
    and "\<not> str_includes sx ''Not Available''"
    and "sql y = Some sy" and "agent_type y = Some ay" and "sy \<noteq> []" and "ay \<noteq> []"
    and "\<not> str_includes sy ''Not Available''"
  shows
    "hooks (DriftPanel_step (ExecSettled i out) c) =
       (hooks c)\<lparr>execResult := Some (case out of Fulfilled r \<Rightarrow> r | Rejected e \<Rightarrow> error_result e),
                 execLoading := False\<rparr>
     \<and> selectedQuery (hooks (run DriftPanel_step
          [SetSelectedQuery (Some x), SetSelectedQuery (Some y),
           ExecSettled (Suc (issued c)) (Fulfilled ry), ExecSettled (issued c) (Fulfilled rx)] c))
        = Some y
     \<and> execResult (hooks (run DriftPanel_step
          [SetSelectedQuery (Some x), SetSelectedQuery (Some y),
           ExecSettled (Suc (issued c)) (Fulfilled ry), ExecSettled (issued c) (Fulfilled rx)] c))
        = Some rx"
proof -
  let ?n = "issued c"
  let ?c1 = "DriftPanel_step (SetSelectedQuery (Some x)) c"
  let ?c2 = "DriftPanel_step (SetSelectedQuery (Some y)) ?c1"
  let ?c3 = "DriftPanel_step (ExecSettled (Suc ?n) (Fulfilled ry)) ?c2"
  let ?c4 = "DriftPanel_step (ExecSettled ?n (Fulfilled rx)) ?c3"
  note sx = select_executable_fields [OF assms(1,5,7,8,9,10,11)]
  have c1: "mounted ?c1" "selectedQuery (hooks ?c1) \<noteq> Some y" "issued ?c1 = Suc ?n"
    "pending ?n ?c1 = Some (PostExecute sx ax)" "pending (Suc ?n) ?c1 = None"
    using sx assms(3,4,6) by simp_all
  note sy = select_executable_fields [OF c1(1,2) assms(12,13,14,15,16)]
  have c2: "mounted ?c2" "selectedQuery (hooks ?c2) = Some y"
    "pending ?n ?c2 = Some (PostExecute sx ax)" "pending (Suc ?n) ?c2 = Some (PostExecute sy ay)"
    using sy c1 by simp_all
  have c3: "mounted ?c3" "selectedQuery (hooks ?c3) = Some y"
    "pending ?n ?c3 = Some (PostExecute sx ax)"
    using c2 DriftPanel_exec_hooks [OF c2(1,4), of "Fulfilled ry"]
      DriftPanel_exec_mounted [of "Suc ?n" "Fulfilled ry" ?c2]
      DriftPanel_exec_pending [of ?n "Suc ?n" "Fulfilled ry" ?c2]
    by simp_all
  have c4: "selectedQuery (hooks ?c4) = Some y" "execResult (hooks ?c4) = Some rx"
    using c3 DriftPanel_exec_hooks [OF c3(1,3), of "Fulfilled rx"] by simp_all
  have r4: "\<And>st e1 e2 e3 e4 z. run st [e1, e2, e3, e4] z = st e4 (st e3 (st e2 (st e1 z)))"
    by simp
  show ?thesis
    unfolding r4 using c4 DriftPanel_exec_hooks [OF assms(1,2), of out] by blast
qed

theorem exec_response_applied_whatever_the_selection_witness:
  "mounted DriftPanel_X_pending
   \<and> pending 1 DriftPanel_X_pending = Some (PostExecute ''SELECT 1'' ''spend'')
   \<and> selectedQuery (hooks DriftPanel_X_pending) = Some sample_X
   \<and> issued DriftPanel_X_pending = 2
   \<and> execResult (hooks (DriftPanel_step (ExecSettled 1 (Rejected (Failure ''Network Error'')))
        DriftPanel_X_pending)) = Some (error_result (Failure ''Network Error''))
   \<and> selectedQuery (hooks (run DriftPanel_step
        [SetSelectedQuery (Some sample_Y), SetSelectedQuery (Some sample_X),
         ExecSettled 3 (Fulfilled result_X), ExecSettled 2 (Fulfilled result_Y)] DriftPanel_X_pending))
      = Some sample_X
   \<and> execResult (hooks (run DriftPanel_step
        [SetSelectedQuery (Some sample_Y), SetSelectedQuery (Some sample_X),
         ExecSettled 3 (Fulfilled result_X), ExecSettled 2 (Fulfilled result_Y)] DriftPanel_X_pending))
      = Some result_Y"
proof -
  have c: "mounted DriftPanel_X_pending"
    "pending 1 DriftPanel_X_pending = Some (PostExecute ''SELECT 1'' ''spend'')"
    by (simp_all add: DriftPanel_X_pending_def example_defs DriftPanel_defs runtime_defs)
  have n: "selectedQuery (hooks DriftPanel_X_pending) = Some sample_X"
    "issued DriftPanel_X_pending = 2"
    by (simp_all add: DriftPanel_X_pending_def example_defs DriftPanel_defs runtime_defs)
  have p: "pending (issued DriftPanel_X_pending) DriftPanel_X_pending = None"
    "pending (Suc (issued DriftPanel_X_pending)) DriftPanel_X_pending = None"
    by (simp_all add: DriftPanel_X_pending_def example_defs DriftPanel_defs runtime_defs)
  have s: "selectedQuery (hooks DriftPanel_X_pending) \<noteq> Some sample_Y" "sample_Y \<noteq> sample_X"
    using n(1) by (simp_all add: sample_X_def sample_Y_def)
  have x: "sql sample_X = Some ''SELECT 1''" "agent_type sample_X = Some ''spend''"
    "''SELECT 1'' \<noteq> []" "''spend'' \<noteq> []" "\<not> str_includes ''SELECT 1'' ''Not Available''"
    by (simp_all add: sample_X_def)
  have y: "sql sample_Y = Some ''SELECT 2''" "agent_type sample_Y = Some ''demand''"
    "''SELECT 2'' \<noteq> []" "''demand'' \<noteq> []" "\<not> str_includes ''SELECT 2'' ''Not Available''"
    by (simp_all add: sample_Y_def)
  have k: "Suc (issued DriftPanel_X_pending) = 3" "issued DriftPanel_X_pending = 2"
    using n(2) by simp_all
  from exec_response_applied_whatever_the_selection [OF c p s y x,
      of "Rejected (Failure ''Network Error'')" result_X result_Y]
  show ?thesis
    unfolding k using c n by simp
qed

text \<open>
  C1 as stated fails: with the payload loaded, X is selected, then Y; the fetch for Y
  (number 2) resolves first and its result is shown; the fetch for X (number 1) resolves
  afterwards and replaces it, so the result shown belongs to X while Y is selected.
\<close>

theorem stale_exec_response_shown_counterexample:
  "execResult (hooks (run DriftPanel_step
      [SetSelectedQuery (Some sample_X), SetSelectedQuery (Some sample_Y),
       ExecSettled 2 (Fulfilled result_Y)] DriftPanel_loaded)) = Some result_Y
   \<and> execResult (hooks (run DriftPanel_step
      [SetSelectedQuery (Some sample_X), SetSelectedQuery (Some sample_Y),
       ExecSettled 2 (Fulfilled result_Y), ExecSettled 1 (Fulfilled result_X)] DriftPanel_loaded))
      = Some result_X
   \<and> selectedQuery (hooks (run DriftPanel_step
      [SetSelectedQuery (Some sample_X), SetSelectedQuery (Some sample_Y),
       ExecSettled 2 (Fulfilled result_Y), ExecSettled 1 (Fulfilled result_X)] DriftPanel_loaded))
      = Some sample_Y
   \<and> result_X \<noteq> result_Y"
  by (simp add: example_defs DriftPanel_defs runtime_defs)

section \<open>The drift poll and the filter\<close>

text \<open>
  C3, as the code has it. When the filter changes from A to B, the interval of A is
  cleared, a fetch under B is issued at once and an interval under B is started; the
  fetches issued under A stay in flight. A drift response is applied when it resolves,
  whatever filter it was fetched under, so a response fetched under A that resolves after
  the change is merged into \<open>data\<close>, and the final \<open>data\<close> is the response that resolved
  last: that of B when A's resolves first, that of A when A's resolves last.
\<close>

theorem filter_change_refetches_and_old_scope_response_is_applied:
  assumes "mounted c" and "filter' (hooks c) \<noteq> v"
    and "pending i c = Some (GetDrift a)" and "pending (issued c) c = None"
  shows
    "filter' (hooks (DriftPanel_step (SetFilter v) c)) = v
     \<and> timer (DriftPanel_step (SetFilter v) c) = Some (GetDrift (if v = [] then None else Some v))
     \<and> inflight (DriftPanel_step (SetFilter v) c)
         = inflight c @ [(issued c, GetDrift (if v = [] then None else Some v))]
     \<and> data (hooks (run DriftPanel_step [SetFilter v, Poll (Settled i (Fulfilled dA))] c)) = Some dA
     \<and> data (hooks (run DriftPanel_step
          [SetFilter v, Poll (Settled (issued c) (Fulfilled dB)), Poll (Settled i (Fulfilled dA))] c))
         = Some dA
     \<and> data (hooks (run DriftPanel_step
          [SetFilter v, Poll (Settled i (Fulfilled dA)), Poll (Settled (issued c) (Fulfilled dB))] c))
         = Some dB"
proof -
  let ?n = "issued c"
  let ?c1 = "DriftPanel_step (SetFilter v) c"
  let ?b = "DriftPanel_step (Poll (Settled ?n (Fulfilled dB))) ?c1"
  let ?a = "DriftPanel_step (Poll (Settled i (Fulfilled dA))) ?c1"
  note f = setFilter_step [OF assms(1,2)]
  from assms(3,4) have ne: "i \<noteq> ?n"
    by auto
  have c1: "mounted ?c1" "pending i ?c1 = Some (GetDrift a)"
    "pending ?n ?c1 = Some (GetDrift (if v = [] then None else Some v))"
    using f assms(3,4) by (simp_all add: load_request_GetDrift)
  have s1: "filter' (hooks ?c1) = v"
    "timer ?c1 = Some (GetDrift (if v = [] then None else Some v))"
    "inflight ?c1 = inflight c @ [(issued c, GetDrift (if v = [] then None else Some v))]"
    using f by (simp_all add: load_request_GetDrift)
  have a1: "data (hooks ?a) = Some dA"
    using DriftPanel_settled_hooks [OF c1(1,2), of "Fulfilled dA"] by simp
  have b: "mounted ?b" "pending i ?b = Some (GetDrift a)"
    using c1 ne DriftPanel_settled_mounted [of ?n "Fulfilled dB" ?c1]
      DriftPanel_settled_pending [of i ?n "Fulfilled dB" ?c1]
    by simp_all
  have a2: "data (hooks (DriftPanel_step (Poll (Settled i (Fulfilled dA))) ?b)) = Some dA"
    using DriftPanel_settled_hooks [OF b, of "Fulfilled dA"] by simp
  have a: "mounted ?a" "pending ?n ?a = Some (GetDrift (if v = [] then None else Some v))"
    using c1 ne DriftPanel_settled_mounted [of i "Fulfilled dA" ?c1]
      DriftPanel_settled_pending [of ?n i "Fulfilled dA" ?c1]
    by simp_all
  have a3: "data (hooks (DriftPanel_step (Poll (Settled ?n (Fulfilled dB))) ?a)) = Some dB"
    using DriftPanel_settled_hooks [OF a, of "Fulfilled dB"] by simp
  have r2: "\<And>st e1 e2 z. run st [e1, e2] z = st e2 (st e1 z)"
    by simp
  have r3: "\<And>st e1 e2 e3 z. run st [e1, e2, e3] z = st e3 (st e2 (st e1 z))"
    by simp
  show ?thesis
    unfolding r2 r3 using s1 a1 a2 a3 by blast
qed

theorem filter_change_refetches_and_old_scope_response_is_applied_witness:
  "mounted DriftPanel_loaded_ticked
   \<and> filter' (hooks DriftPanel_loaded_ticked) = []
   \<and> pending 1 DriftPanel_loaded_ticked = Some (GetDrift None)
   \<and> issued DriftPanel_loaded_ticked = 2
   \<and> inflight (DriftPanel_step (SetFilter ''spend'') DriftPanel_loaded_ticked)
       = [(1, GetDrift None), (2, GetDrift (Some ''spend''))]
   \<and> data (hooks (run DriftPanel_step
        [SetFilter ''spend'', Poll (Settled 2 (Fulfilled [sample_X])), Poll (Settled 1 (Fulfilled [sample_Y]))]
        DriftPanel_loaded_ticked)) = Some [sample_Y]"
proof -
  have c: "mounted DriftPanel_loaded_ticked" "filter' (hooks DriftPanel_loaded_ticked) \<noteq> ''spend''"
    "pending 1 DriftPanel_loaded_ticked = Some (GetDrift None)"
    "pending (issued DriftPanel_loaded_ticked) DriftPanel_loaded_ticked = None"
    by (simp_all add: DriftPanel_loaded_ticked_def example_defs DriftPanel_defs runtime_defs)
  have n: "filter' (hooks DriftPanel_loaded_ticked) = []" "issued DriftPanel_loaded_ticked = 2"
    "inflight DriftPanel_loaded_ticked = [(1, GetDrift None)]"
    by (simp_all add: DriftPanel_loaded_ticked_def example_defs DriftPanel_defs runtime_defs)
  from filter_change_refetches_and_old_scope_response_is_applied [OF c, of "[sample_Y]" "[sample_X]"]
  show ?thesis
    unfolding n using c(1,3) by simp
qed

text \<open>
  C3 as stated fails: with the payload loaded and a poll under the filter \<open>''''\<close> (number 1)
  in flight, the filter is set to \<open>spend\<close>, which issues poll number 2; the response of
  poll 2 is applied, then the response of poll 1 resolves and replaces it, so the final
  \<open>data\<close> is the response fetched under the old filter.
\<close>

theorem old_scope_response_overwrites_counterexample:
  "inflight (run DriftPanel_step [SetFilter ''spend''] DriftPanel_loaded_ticked)
     = [(1, GetDrift None), (2, GetDrift (Some ''spend''))]
   \<and> filter' (hooks (run DriftPanel_step
        [SetFilter ''spend'', Poll (Settled 2 (Fulfilled [sample_X])), Poll (Settled 1 (Fulfilled drift_rows))]
        DriftPanel_loaded_ticked)) = ''spend''
   \<and> data (hooks (run DriftPanel_step
        [SetFilter ''spend'', Poll (Settled 2 (Fulfilled [sample_X]))] DriftPanel_loaded_ticked))
      = Some [sample_X]
   \<and> data (hooks (run DriftPanel_step
        [SetFilter ''spend'', Poll (Settled 2 (Fulfilled [sample_X])), Poll (Settled 1 (Fulfilled drift_rows))]
        DriftPanel_loaded_ticked)) = Some drift_rows
   \<and> drift_rows \<noteq> [sample_X]"
  by (simp add: DriftPanel_loaded_ticked_def example_defs DriftPanel_defs runtime_defs)

section \<open>Selecting a query\<close>

text \<open>
  C8, as the code has it. Selecting a query whose stored SQL contains the placeholder
  \<open>Not Available\<close> issues no request. When the query also has a truthy \<open>agent_type\<close>, the
  result is set at once to the error result \<open>{status: 'error', error: 'No SQL
  recorded.'}\<close>; \<open>execLoading\<close> is left as it was.
\<close>

theorem not_available_gives_error_result_without_request:
  assumes "mounted c" and "selectedQuery (hooks c) \<noteq> Some q"
    and "sql q = Some s" and "str_includes s ''Not Available''"
  shows
    "inflight (DriftPanel_step (SetSelectedQuery (Some q)) c) = inflight c
     \<and> issued (DriftPanel_step (SetSelectedQuery (Some q)) c) = issued c
     \<and> (truthy (agent_type q) \<longrightarrow>
          hooks (DriftPanel_step (SetSelectedQuery (Some q)) c)
            = (hooks c)\<lparr>selectedQuery := Some q,
                execResult := Some \<lparr>status = ''error'', results = None, error' = Some ''No SQL recorded.''\<rparr>\<rparr>)"
proof (cases "truthy (agent_type q)")
  case True
  from select_no_sql_recorded [OF assms True] assms(1) show ?thesis
    by (simp add: setExecResult_fields setSelectedQuery_fields no_sql_recorded_def)
next
  case False
  then have "\<not> truthy (opt_chain (Some q) sql) \<or> \<not> truthy (opt_chain (Some q) agent_type)"
    by (simp add: opt_chain_def)
  from select_not_executable [OF assms(1,2) this] False show ?thesis
    by (simp add: setExecResult_fields setSelectedQuery_fields)
qed

theorem not_available_gives_error_result_without_request_witness:
  "mounted DriftPanel_X_pending
   \<and> selectedQuery (hooks DriftPanel_X_pending) = Some sample_X
   \<and> sql sample_not_available = Some ''Not Available''
   \<and> str_includes ''Not Available'' ''Not Available''
   \<and> truthy (agent_type sample_not_available)
   \<and> inflight (DriftPanel_step (SetSelectedQuery (Some sample_not_available)) DriftPanel_X_pending)
       = [(1, PostExecute ''SELECT 1'' ''spend'')]
   \<and> execResult (hooks (DriftPanel_step (SetSelectedQuery (Some sample_not_available)) DriftPanel_X_pending))
       = Some \<lparr>status = ''error'', results = None, error' = Some ''No SQL recorded.''\<rparr>"
proof -
  have c: "mounted DriftPanel_X_pending"
    "selectedQuery (hooks DriftPanel_X_pending) \<noteq> Some sample_not_available"
    "sql sample_not_available = Some ''Not Available''"
    "str_includes ''Not Available'' ''Not Available''"
    by (simp_all add: DriftPanel_X_pending_def example_defs DriftPanel_defs runtime_defs)
  have t: "truthy (agent_type sample_not_available)"
    by (simp add: sample_not_available_def truthy_def)
  have n: "selectedQuery (hooks DriftPanel_X_pending) = Some sample_X"
    "inflight DriftPanel_X_pending = [(1, PostExecute ''SELECT 1'' ''spend'')]"
    by (simp_all add: DriftPanel_X_pending_def example_defs DriftPanel_defs runtime_defs)
  from not_available_gives_error_result_without_request [OF c] t
  have "inflight (DriftPanel_step (SetSelectedQuery (Some sample_not_available)) DriftPanel_X_pending)
          = inflight DriftPanel_X_pending"
    and "hooks (DriftPanel_step (SetSelectedQuery (Some sample_not_available)) DriftPanel_X_pending)
          = (hooks DriftPanel_X_pending)\<lparr>selectedQuery := Some sample_not_available,
              execResult := Some \<lparr>status = ''error'', results = None, error' = Some ''No SQL recorded.''\<rparr>\<rparr>"
    by blast+
  then show ?thesis
    using c t n by simp
qed

text \<open>
  C8 as stated fails for a query whose SQL is the placeholder and whose \<open>agent_type\<close> is
  missing: the first guard of the effect takes it, and the result is set to null, not to
  the error result.
\<close>

theorem not_available_without_agent_type_counterexample:
  "sql sample_not_available_no_agent = Some ''Not Available''
   \<and> execResult (hooks (run DriftPanel_step [SetSelectedQuery (Some sample_not_available_no_agent)]
        DriftPanel_X_shown)) = None
   \<and> execResult (hooks DriftPanel_X_shown) = Some result_X"
  by (simp add: example_defs DriftPanel_defs runtime_defs)

text \<open>
  C9, as the code has it. When a query with an executable payload is newly selected, the
  effect sets \<open>execLoading\<close> to true and issues the request; \<open>execResult\<close> is left as it was
  and is not reset to null. While \<open>execLoading\<close> is true the output box shows the loading
  text, whatever \<open>execResult\<close> holds. When a fetch fails, the result becomes the error
  result whose \<open>error\<close> field is the failure's message, and \<open>execLoading\<close> becomes false.
\<close>

theorem executable_selection_sets_loading_and_keeps_result:
  "(mounted c \<and> selectedQuery (hooks c) \<noteq> Some q \<and> sql q = Some s \<and> agent_type q = Some a
      \<and> s \<noteq> [] \<and> a \<noteq> [] \<and> \<not> str_includes s ''Not Available'' \<longrightarrow>
      hooks (DriftPanel_step (SetSelectedQuery (Some q)) c)
        = (hooks c)\<lparr>selectedQuery := Some q, execLoading := True\<rparr>
      \<and> execResult (hooks (DriftPanel_step (SetSelectedQuery (Some q)) c)) = execResult (hooks c)
      \<and> execLoading (hooks (DriftPanel_step (SetSelectedQuery (Some q)) c))
      \<and> inflight (DriftPanel_step (SetSelectedQuery (Some q)) c) = inflight c @ [(issued c, PostExecute s a)]
      \<and> render_output (hooks (DriftPanel_step (SetSelectedQuery (Some q)) c)) = LoadingOutput)
   \<and> (execLoading h \<longrightarrow> render_output h = LoadingOutput)
   \<and> (mounted c' \<and> pending i c' = Some (PostExecute s' a') \<longrightarrow>
      hooks (DriftPanel_step (ExecSettled i (Rejected e)) c')
        = (hooks c')\<lparr>execResult := Some \<lparr>status = ''error'', results = None, error' = Some (message e)\<rparr>,
                      execLoading := False\<rparr>)"
proof -
  have sel: "mounted c \<and> selectedQuery (hooks c) \<noteq> Some q \<and> sql q = Some s \<and> agent_type q = Some a
      \<and> s \<noteq> [] \<and> a \<noteq> [] \<and> \<not> str_includes s ''Not Available'' \<longrightarrow>
      hooks (DriftPanel_step (SetSelectedQuery (Some q)) c)
        = (hooks c)\<lparr>selectedQuery := Some q, execLoading := True\<rparr>
      \<and> execResult (hooks (DriftPanel_step (SetSelectedQuery (Some q)) c)) = execResult (hooks c)
      \<and> execLoading (hooks (DriftPanel_step (SetSelectedQuery (Some q)) c))
      \<and> inflight (DriftPanel_step (SetSelectedQuery (Some q)) c) = inflight c @ [(issued c, PostExecute s a)]
      \<and> render_output (hooks (DriftPanel_step (SetSelectedQuery (Some q)) c)) = LoadingOutput"
  proof
    assume a: "mounted c \<and> selectedQuery (hooks c) \<noteq> Some q \<and> sql q = Some s \<and> agent_type q = Some a
      \<and> s \<noteq> [] \<and> a \<noteq> [] \<and> \<not> str_includes s ''Not Available''"
    then have a1: "mounted c" and a2: "selectedQuery (hooks c) \<noteq> Some q" and a3: "sql q = Some s"
      and a4: "agent_type q = Some a" and a5: "s \<noteq> []" and a6: "a \<noteq> []"
      and a7: "\<not> str_includes s ''Not Available''"
      by blast+
    note f = select_executable_fields [OF a1 a2 a3 a4 a5 a6 a7]
    show "hooks (DriftPanel_step (SetSelectedQuery (Some q)) c)
        = (hooks c)\<lparr>selectedQuery := Some q, execLoading := True\<rparr>
      \<and> execResult (hooks (DriftPanel_step (SetSelectedQuery (Some q)) c)) = execResult (hooks c)
      \<and> execLoading (hooks (DriftPanel_step (SetSelectedQuery (Some q)) c))
      \<and> inflight (DriftPanel_step (SetSelectedQuery (Some q)) c) = inflight c @ [(issued c, PostExecute s a)]
      \<and> render_output (hooks (DriftPanel_step (SetSelectedQuery (Some q)) c)) = LoadingOutput"
      unfolding f(1) f(3) by (simp add: render_output_def)
  qed
  have ld: "execLoading h \<longrightarrow> render_output h = LoadingOutput"
    by (simp add: render_output_def)
  have fl: "mounted c' \<and> pending i c' = Some (PostExecute s' a') \<longrightarrow>
      hooks (DriftPanel_step (ExecSettled i (Rejected e)) c')
        = (hooks c')\<lparr>execResult := Some \<lparr>status = ''error'', results = None, error' = Some (message e)\<rparr>,
                      execLoading := False\<rparr>"
    using DriftPanel_exec_hooks [of c' i s' a' "Rejected e"] by (simp add: error_result_def)
  from sel ld fl show ?thesis
    by blast
qed

theorem executable_selection_sets_loading_and_keeps_result_witness:
  "mounted DriftPanel_X_shown
   \<and> selectedQuery (hooks DriftPanel_X_shown) = Some sample_X
   \<and> execResult (hooks DriftPanel_X_shown) = Some result_X
   \<and> \<not> execLoading (hooks DriftPanel_X_shown)
   \<and> inflight DriftPanel_X_shown = []
   \<and> sql sample_Y = Some ''SELECT 2'' \<and> agent_type sample_Y = Some ''demand''
   \<and> execResult (hooks (DriftPanel_step (SetSelectedQuery (Some sample_Y)) DriftPanel_X_shown))
       = Some result_X
   \<and> execLoading (hooks (DriftPanel_step (SetSelectedQuery (Some sample_Y)) DriftPanel_X_shown))
   \<and> inflight (DriftPanel_step (SetSelectedQuery (Some sample_Y)) DriftPanel_X_shown)
       = [(2, PostExecute ''SELECT 2'' ''demand'')]
   \<and> render_output (hooks (DriftPanel_step (SetSelectedQuery (Some sample_Y)) DriftPanel_X_shown))
       = LoadingOutput
   \<and> mounted DriftPanel_X_pending
   \<and> pending 1 DriftPanel_X_pending = Some (PostExecute ''SELECT 1'' ''spend'')
   \<and> execResult (hooks (DriftPanel_step (ExecSettled 1 (Rejected (Failure ''Network Error'')))
        DriftPanel_X_pending))
       = Some \<lparr>status = ''error'', results = None, error' = Some ''Network Error''\<rparr>
   \<and> \<not> execLoading (hooks (DriftPanel_step (ExecSettled 1 (Rejected (Failure ''Network Error'')))
        DriftPanel_X_pending))"
proof -
  have c: "mounted DriftPanel_X_shown" "selectedQuery (hooks DriftPanel_X_shown) \<noteq> Some sample_Y"
    by (simp_all add: example_defs DriftPanel_defs runtime_defs)
  have y: "sql sample_Y = Some ''SELECT 2''" "agent_type sample_Y = Some ''demand''"
    "''SELECT 2'' \<noteq> []" "''demand'' \<noteq> []" "\<not> str_includes ''SELECT 2'' ''Not Available''"
    by (simp_all add: sample_Y_def)
  have p: "mounted DriftPanel_X_pending"
    "pending 1 DriftPanel_X_pending = Some (PostExecute ''SELECT 1'' ''spend'')"
    by (simp_all add: DriftPanel_X_pending_def example_defs DriftPanel_defs runtime_defs)
  have n: "selectedQuery (hooks DriftPanel_X_shown) = Some sample_X"
    "execResult (hooks DriftPanel_X_shown) = Some result_X"
    "\<not> execLoading (hooks DriftPanel_X_shown)"
    "inflight DriftPanel_X_shown = []" "issued DriftPanel_X_shown = 2"
    by (simp_all add: example_defs DriftPanel_defs runtime_defs)
  note t = executable_selection_sets_loading_and_keeps_result
    [where c = DriftPanel_X_shown and q = sample_Y and s = "''SELECT 2''" and a = "''demand''"
      and c' = DriftPanel_X_pending and i = 1 and s' = "''SELECT 1''" and a' = "''spend''"
      and e = "Failure ''Network Error''" and h = "hooks DriftPanel_X_shown"]
  from t c y p have
    "execResult (hooks (DriftPanel_step (SetSelectedQuery (Some sample_Y)) DriftPanel_X_shown))
       = execResult (hooks DriftPanel_X_shown)"
    and "execLoading (hooks (DriftPanel_step (SetSelectedQuery (Some sample_Y)) DriftPanel_X_shown))"
    and "inflight (DriftPanel_step (SetSelectedQuery (Some sample_Y)) DriftPanel_X_shown)
       = inflight DriftPanel_X_shown @ [(issued DriftPanel_X_shown, PostExecute ''SELECT 2'' ''demand'')]"
    and "render_output (hooks (DriftPanel_step (SetSelectedQuery (Some sample_Y)) DriftPanel_X_shown))
       = LoadingOutput"
    and "hooks (DriftPanel_step (ExecSettled 1 (Rejected (Failure ''Network Error''))) DriftPanel_X_pending)
       = (hooks DriftPanel_X_pending)\<lparr>execResult :=
            Some \<lparr>status = ''error'', results = None, error' = Some (message (Failure ''Network Error''))\<rparr>,
           execLoading := False\<rparr>"
    by blast+
  then show ?thesis
    unfolding n using c(1) p y(1,2) n(1,2,3,4) by simp
qed

text \<open>
  C9 as stated fails: X is selected and its result shown; Y is then selected, and the
  result is still the one of X, not null. And when Y is selected while the fetch for X is
  still in flight and that fetch then resolves, the output box shows the rows of X while
  the fetch for Y is pending.
\<close>

theorem result_not_reset_on_selection_counterexample:
  "execResult (hooks (run DriftPanel_step [SetSelectedQuery (Some sample_Y)] DriftPanel_X_shown))
     = Some result_X
   \<and> execLoading (hooks (run DriftPanel_step [SetSelectedQuery (Some sample_Y)] DriftPanel_X_shown))
   \<and> pending 2 (run DriftPanel_step
        [SetSelectedQuery (Some sample_Y), ExecSettled 1 (Fulfilled result_X)] DriftPanel_X_pending)
      = Some (PostExecute ''SELECT 2'' ''demand'')
   \<and> selectedQuery (hooks (run DriftPanel_step
        [SetSelectedQuery (Some sample_Y), ExecSettled 1 (Fulfilled result_X)] DriftPanel_X_pending))
      = Some sample_Y
   \<and> render_output (hooks (run DriftPanel_step
        [SetSelectedQuery (Some sample_Y), ExecSettled 1 (Fulfilled result_X)] DriftPanel_X_pending))
      = ResultTable [[(''n'', ''1'')]]"
  by (simp add: DriftPanel_X_pending_def example_defs DriftPanel_defs runtime_defs render_output_def)




section \<open>Failures and what the panels show\<close>

lemma AlertsPanel_settled_hooks:
  "mounted c \<Longrightarrow> pending i c = Some r \<Longrightarrow>
   hooks (AlertsPanel_step (Settled i out) c) =
     (case out of Fulfilled d \<Rightarrow> (hooks c)\<lparr>alerts := d, loading := False\<rparr>
                | Rejected e \<Rightarrow> (hooks c)\<lparr>loading := False\<rparr>)"
  by (cases out) (simp_all add: loadAlerts_settled_hooks complete_fields)

lemma AlertsPanel_settled_console:
  "pending i c = Some r \<Longrightarrow>
   console (AlertsPanel_step (Settled i (Rejected e)) c) = console c @ [(''Failed to load alerts'', e)]"
  by (simp add: loadAlerts_settled_console complete_fields)

lemma poll_settled_fulfilled: "fst (poll_settled out c) = Fulfilled ()"
  by (cases out) (simp_all add: poll_settled_def)

lemma Dashboard_failure_dropped:
  "hooks (Dashboard_step (Settled i (Rejected e)) c) = hooks c"
  "console (Dashboard_step (Settled i (Rejected e)) c) = console c"
  by (simp_all add: poll_settled_def complete_fields split: option.splits)

lemma poll_render_error:
  "error h = Some m \<Longrightarrow> m \<noteq> [] \<Longrightarrow> poll_render falsy h = ErrorMsg m"
  by (simp add: poll_render_def truthy_def)

lemma AlertsPanel_render_cards:
  "alerts h \<noteq> [] \<Longrightarrow> AlertsPanel_render h = AlertCards (alerts h)"
  by (simp add: AlertsPanel_render_def)

lemma MetricsPanel_failure_shown:
  "mounted c \<Longrightarrow> pending i c = Some r \<Longrightarrow>
   hooks (MetricsPanel_step (Settled i (Rejected e)) c) = (hooks c)\<lparr>error := Some (message e)\<rparr>
   \<and> (message e \<noteq> [] \<longrightarrow>
        poll_render falsy (hooks (MetricsPanel_step (Settled i (Rejected e)) c)) = ErrorMsg (message e))"
  using MetricsPanel_settled_hooks [of c i r "Rejected e"]
  by (simp add: poll_render_error)

lemma DriftPanel_failure_shown:
  "mounted c \<Longrightarrow> pending i c = Some (GetDrift x) \<Longrightarrow>
   hooks (DriftPanel_step (Poll (Settled i (Rejected e))) c) = (hooks c)\<lparr>error := Some (message e)\<rparr>
   \<and> (message e \<noteq> [] \<longrightarrow>
        poll_render falsy (hooks (DriftPanel_step (Poll (Settled i (Rejected e))) c)) = ErrorMsg (message e))"
  using DriftPanel_settled_hooks [of c i x "Rejected e"]
  by (simp add: poll_render_error)

lemma DriftPanel_exec_failure_shown:
  "mounted c \<Longrightarrow> pending i c = Some (PostExecute s a) \<Longrightarrow>
   hooks (DriftPanel_step (ExecSettled i (Rejected e)) c)
     = (hooks c)\<lparr>execResult := Some \<lparr>status = ''error'', results = None, error' = Some (message e)\<rparr>,
                  execLoading := False\<rparr>
   \<and> render_output (hooks (DriftPanel_step (ExecSettled i (Rejected e)) c)) = ErrorText (Some (message e))"
  using DriftPanel_exec_hooks [of c i s a "Rejected e"]
  by (simp add: error_result_def render_output_def)

lemma AlertsPanel_failure_not_shown:
  "mounted c \<Longrightarrow> pending i c = Some r \<Longrightarrow>
   hooks (AlertsPanel_step (Settled i (Rejected e)) c) = (hooks c)\<lparr>loading := False\<rparr>
   \<and> console (AlertsPanel_step (Settled i (Rejected e)) c) = console c @ [(''Failed to load alerts'', e)]
   \<and> (alerts (hooks c) \<noteq> [] \<longrightarrow>
        AlertsPanel_render (hooks (AlertsPanel_step (Settled i (Rejected e)) c)) = AlertCards (alerts (hooks c)))"
  using AlertsPanel_settled_hooks [of c i r "Rejected e"] AlertsPanel_settled_console [of i c r e]
  by (simp add: AlertsPanel_render_cards)

text \<open>
  C6, as the code has it. A failed fetch never throws past its panel: every promise chain
  ends in a catch, so the chain's promise is fulfilled whatever the fetch did. In
  MetricsPanel and DriftPanel the failure's message is stored in \<open>error\<close>, and a non-empty
  \<open>error\<close> makes the panel render the error message alone, in place of the data, also when
  \<open>data\<close> still holds an earlier success. The execute fetch stores the failure's message in
  the \<open>error\<close> field of an error result, which the output box shows. In AlertsPanel the
  failure is written to the console and nothing is stored but \<open>loading = false\<close>: the
  alerts of the last success stay displayed with no error indicator. The health poll of
  the dashboard swallows the failure: nothing is stored and nothing is logged.
\<close>

theorem failure_is_caught_and_error_replaces_data:
  "fst (load_settled out c) = Fulfilled ()
   \<and> fst (load_settled out' p) = Fulfilled ()
   \<and> fst (exec_settled out'' p') = Fulfilled ()
   \<and> fst (loadAlerts_settled oa a) = Fulfilled ()
   \<and> fst (poll_settled oh b) = Fulfilled ()
   \<and> (mounted c \<and> pending i c = Some r \<longrightarrow>
        hooks (MetricsPanel_step (Settled i (Rejected e)) c) = (hooks c)\<lparr>error := Some (message e)\<rparr>
        \<and> (message e \<noteq> [] \<longrightarrow>
             poll_render falsy (hooks (MetricsPanel_step (Settled i (Rejected e)) c)) = ErrorMsg (message e)))
   \<and> (mounted p \<and> pending j p = Some (GetDrift x) \<longrightarrow>
        hooks (DriftPanel_step (Poll (Settled j (Rejected e))) p) = (hooks p)\<lparr>error := Some (message e)\<rparr>
        \<and> (message e \<noteq> [] \<longrightarrow>
             poll_render falsy' (hooks (DriftPanel_step (Poll (Settled j (Rejected e))) p))
               = ErrorMsg (message e)))
   \<and> (error h = Some m \<and> m \<noteq> [] \<longrightarrow> poll_render falsy'' h = ErrorMsg m)
   \<and> (mounted p' \<and> pending j' p' = Some (PostExecute s x') \<longrightarrow>
        hooks (DriftPanel_step (ExecSettled j' (Rejected e)) p')
          = (hooks p')\<lparr>execResult := Some \<lparr>status = ''error'', results = None, error' = Some (message e)\<rparr>,
                        execLoading := False\<rparr>
        \<and> render_output (hooks (DriftPanel_step (ExecSettled j' (Rejected e)) p'))
          = ErrorText (Some (message e)))
   \<and> (mounted a \<and> pending k a = Some r' \<longrightarrow>
        hooks (AlertsPanel_step (Settled k (Rejected e)) a) = (hooks a)\<lparr>loading := False\<rparr>
        \<and> console (AlertsPanel_step (Settled k (Rejected e)) a)
          = console a @ [(''Failed to load alerts'', e)]
        \<and> (alerts (hooks a) \<noteq> [] \<longrightarrow>
             AlertsPanel_render (hooks (AlertsPanel_step (Settled k (Rejected e)) a))
               = AlertCards (alerts (hooks a))))
   \<and> hooks (Dashboard_step (Settled l (Rejected e)) b) = hooks b
   \<and> console (Dashboard_step (Settled l (Rejected e)) b) = console b"
proof -
  note f = load_settled_fulfilled [of out c] load_settled_fulfilled [of out' p]
    exec_settled_fulfilled [of out'' p'] loadAlerts_settled_fulfilled [of oa a]
    poll_settled_fulfilled [of oh b]
  have mt: "mounted c \<and> pending i c = Some r \<longrightarrow>
        hooks (MetricsPanel_step (Settled i (Rejected e)) c) = (hooks c)\<lparr>error := Some (message e)\<rparr>
        \<and> (message e \<noteq> [] \<longrightarrow>
             poll_render falsy (hooks (MetricsPanel_step (Settled i (Rejected e)) c)) = ErrorMsg (message e))"
    using MetricsPanel_failure_shown [of c i r e falsy] by blast
  have dr: "mounted p \<and> pending j p = Some (GetDrift x) \<longrightarrow>
        hooks (DriftPanel_step (Poll (Settled j (Rejected e))) p) = (hooks p)\<lparr>error := Some (message e)\<rparr>
        \<and> (message e \<noteq> [] \<longrightarrow>
             poll_render falsy' (hooks (DriftPanel_step (Poll (Settled j (Rejected e))) p))
               = ErrorMsg (message e))"
    using DriftPanel_failure_shown [of p j x e falsy'] by blast
  have pr: "error h = Some m \<and> m \<noteq> [] \<longrightarrow> poll_render falsy'' h = ErrorMsg m"
    using poll_render_error [of h m falsy''] by blast
  have ex: "mounted p' \<and> pending j' p' = Some (PostExecute s x') \<longrightarrow>
        hooks (DriftPanel_step (ExecSettled j' (Rejected e)) p')
          = (hooks p')\<lparr>execResult := Some \<lparr>status = ''error'', results = None, error' = Some (message e)\<rparr>,
                        execLoading := False\<rparr>
        \<and> render_output (hooks (DriftPanel_step (ExecSettled j' (Rejected e)) p'))
          = ErrorText (Some (message e))"
    using DriftPanel_exec_failure_shown [of p' j' s x' e] by blast
  have al: "mounted a \<and> pending k a = Some r' \<longrightarrow>
        hooks (AlertsPanel_step (Settled k (Rejected e)) a) = (hooks a)\<lparr>loading := False\<rparr>
        \<and> console (AlertsPanel_step (Settled k (Rejected e)) a)
          = console a @ [(''Failed to load alerts'', e)]
        \<and> (alerts (hooks a) \<noteq> [] \<longrightarrow>
             AlertsPanel_render (hooks (AlertsPanel_step (Settled k (Rejected e)) a))
               = AlertCards (alerts (hooks a)))"
    using AlertsPanel_failure_not_shown [of a k r' e] by blast
  note h = Dashboard_failure_dropped [of l e b]
  from f mt dr pr ex al h show ?thesis
    by blast
qed

theorem failure_is_caught_and_error_replaces_data_witness:
  "mounted MetricsPanel_loaded_ticked \<and> pending 1 MetricsPanel_loaded_ticked = Some GetMetrics
   \<and> mounted DriftPanel_loaded_ticked \<and> pending 1 DriftPanel_loaded_ticked = Some (GetDrift None)
   \<and> mounted DriftPanel_X_pending
   \<and> pending 1 DriftPanel_X_pending = Some (PostExecute ''SELECT 1'' ''spend'')
   \<and> mounted AlertsPanel_loaded_ticked \<and> pending 1 AlertsPanel_loaded_ticked = Some GetAlerts
   \<and> alerts (hooks AlertsPanel_loaded_ticked) = [''disk full'']
   \<and> data (hooks MetricsPanel_loaded_ticked) = Some 7
   \<and> data (hooks (MetricsPanel_step (Settled 1 (Rejected (Failure ''Network Error''))) MetricsPanel_loaded_ticked))
       = Some 7
   \<and> poll_render number_falsy
        (hooks (MetricsPanel_step (Settled 1 (Rejected (Failure ''Network Error''))) MetricsPanel_loaded_ticked))
       = ErrorMsg ''Network Error''
   \<and> poll_render (\<lambda>d. False)
        (hooks (DriftPanel_step (Poll (Settled 1 (Rejected (Failure ''Network Error'')))) DriftPanel_loaded_ticked))
       = ErrorMsg ''Network Error''
   \<and> execResult (hooks (DriftPanel_step (ExecSettled 1 (Rejected (Failure ''Network Error''))) DriftPanel_X_pending))
       = Some \<lparr>status = ''error'', results = None, error' = Some ''Network Error''\<rparr>
   \<and> render_output (hooks (DriftPanel_step (ExecSettled 1 (Rejected (Failure ''Network Error''))) DriftPanel_X_pending))
       = ErrorText (Some ''Network Error'')
   \<and> AlertsPanel_render (hooks (AlertsPanel_step (Settled 1 (Rejected (Failure ''Network Error''))) AlertsPanel_loaded_ticked))
       = AlertCards [''disk full'']
   \<and> hooks (Dashboard_step (Settled 1 (Rejected (Failure ''Network Error''))) Dashboard_loaded_ticked)
       = hooks Dashboard_loaded_ticked"
proof -
  have m: "mounted MetricsPanel_loaded_ticked" "pending 1 MetricsPanel_loaded_ticked = Some GetMetrics"
    by (simp_all add: MetricsPanel_loaded_ticked_def MetricsPanel_defs runtime_defs)
  have d: "mounted DriftPanel_loaded_ticked" "pending 1 DriftPanel_loaded_ticked = Some (GetDrift None)"
    by (simp_all add: DriftPanel_loaded_ticked_def example_defs DriftPanel_defs runtime_defs)
  have x: "mounted DriftPanel_X_pending"
    "pending 1 DriftPanel_X_pending = Some (PostExecute ''SELECT 1'' ''spend'')"
    by (simp_all add: DriftPanel_X_pending_def example_defs DriftPanel_defs runtime_defs)
  have a: "mounted AlertsPanel_loaded_ticked" "pending 1 AlertsPanel_loaded_ticked = Some GetAlerts"
    by (simp_all add: AlertsPanel_loaded_ticked_def AlertsPanel_defs runtime_defs)
  have e: "message (Failure ''Network Error'') \<noteq> []" "alerts (hooks AlertsPanel_loaded_ticked) \<noteq> []"
    by (simp_all add: AlertsPanel_loaded_ticked_def AlertsPanel_defs runtime_defs)
  have n: "alerts (hooks AlertsPanel_loaded_ticked) = [''disk full'']"
    "data (hooks MetricsPanel_loaded_ticked) = Some 7"
    by (simp_all add: AlertsPanel_loaded_ticked_def MetricsPanel_loaded_ticked_def
        AlertsPanel_defs MetricsPanel_defs runtime_defs)
  note t = failure_is_caught_and_error_replaces_data
    [where c = MetricsPanel_loaded_ticked and i = 1 and r = GetMetrics
      and e = "Failure ''Network Error''" and falsy = number_falsy
      and p = DriftPanel_loaded_ticked and j = 1 and x = None and falsy' = "\<lambda>d. False"
      and p' = DriftPanel_X_pending and j' = 1 and s = "''SELECT 1''" and x' = "''spend''"
      and a = AlertsPanel_loaded_ticked and k = 1 and r' = GetAlerts
      and b = Dashboard_loaded_ticked and l = 1]
  from t m d x a e have
    "hooks (MetricsPanel_step (Settled 1 (Rejected (Failure ''Network Error''))) MetricsPanel_loaded_ticked)
       = (hooks MetricsPanel_loaded_ticked)\<lparr>error := Some (message (Failure ''Network Error''))\<rparr>"
    and "poll_render number_falsy
        (hooks (MetricsPanel_step (Settled 1 (Rejected (Failure ''Network Error''))) MetricsPanel_loaded_ticked))
       = ErrorMsg (message (Failure ''Network Error''))"
    and "poll_render (\<lambda>d. False)
        (hooks (DriftPanel_step (Poll (Settled 1 (Rejected (Failure ''Network Error'')))) DriftPanel_loaded_ticked))
       = ErrorMsg (message (Failure ''Network Error''))"
    and "hooks (DriftPanel_step (ExecSettled 1 (Rejected (Failure ''Network Error''))) DriftPanel_X_pending)
       = (hooks DriftPanel_X_pending)\<lparr>execResult :=
            Some \<lparr>status = ''error'', results = None, error' = Some (message (Failure ''Network Error''))\<rparr>,
           execLoading := False\<rparr>"
    and "render_output (hooks (DriftPanel_step (ExecSettled 1 (Rejected (Failure ''Network Error''))) DriftPanel_X_pending))
       = ErrorText (Some (message (Failure ''Network Error'')))"
    and "AlertsPanel_render (hooks (AlertsPanel_step (Settled 1 (Rejected (Failure ''Network Error''))) AlertsPanel_loaded_ticked))
       = AlertCards (alerts (hooks AlertsPanel_loaded_ticked))"
    and "hooks (Dashboard_step (Settled 1 (Rejected (Failure ''Network Error''))) Dashboard_loaded_ticked)
       = hooks Dashboard_loaded_ticked"
    by blast+
  then show ?thesis
    using m d x a n by simp
qed

text \<open>
  C6 as stated fails on both counts. In MetricsPanel, after a success and then a failed
  poll, the panel renders the error message alone although \<open>data\<close> still holds the
  payload: the indicator has replaced the data. In AlertsPanel, after a success and then
  a failed poll, the state cells are what they were before the failure and the alerts are
  rendered as before: the failure leaves no indicator.
\<close>

theorem error_replaces_data_or_is_dropped_counterexample:
  "poll_render number_falsy (hooks MetricsPanel_loaded_ticked) = Content 7
   \<and> data (hooks (run MetricsPanel_step [Settled 1 (Rejected (Failure ''Network Error''))]
        MetricsPanel_loaded_ticked)) = Some 7
   \<and> poll_render number_falsy (hooks (run MetricsPanel_step [Settled 1 (Rejected (Failure ''Network Error''))]
        MetricsPanel_loaded_ticked)) = ErrorMsg ''Network Error''
   \<and> hooks (run AlertsPanel_step [Settled 1 (Rejected (Failure ''Network Error''))]
        AlertsPanel_loaded_ticked) = hooks AlertsPanel_loaded_ticked
   \<and> AlertsPanel_render (hooks (run AlertsPanel_step [Settled 1 (Rejected (Failure ''Network Error''))]
        AlertsPanel_loaded_ticked)) = AlertCards [''disk full'']"
  by (simp add: MetricsPanel_loaded_ticked_def AlertsPanel_loaded_ticked_def MetricsPanel_defs
      AlertsPanel_defs runtime_defs poll_render_def AlertsPanel_render_def truthy_def number_falsy_def)

end
